theory Spec2Isabelle
  imports Complex_Main "HOL-Library.Log_Nat" "HOL-Library.Signed_Division"
begin

section \<open>JavaScript values\<close>

text \<open>
  The swap action of the LightLink plugin (\<^verbatim>\<open>SwapAction.swap\<close>, \<^verbatim>\<open>getQuote\<close>,
  \<^verbatim>\<open>executeSwap\<close>) is TypeScript. Its amounts are \<^verbatim>\<open>bigint\<close> (unbounded integers,
  \<^typ>\<open>int\<close> here), the slippage and the fee tier are \<^verbatim>\<open>number\<close> (IEEE 754 binary64),
  addresses, hashes and call data are hex strings.

  A \<^verbatim>\<open>number\<close> is modelled by the rational it denotes, or one of the three special
  values. The two zeros are identified: nothing in the code tells them apart
  (\<^verbatim>\<open>BigInt(-0)\<close> is \<^verbatim>\<open>0n\<close>).
\<close>

datatype number = Finite rat | NaN | PosInfinity | NegInfinity

datatype error =
  Error string  \<comment> \<open>\<^verbatim>\<open>new Error(message)\<close>\<close>
  | TypeError   \<comment> \<open>raised by the engine: property read of \<^verbatim>\<open>undefined\<close>, BigInt mixed with another type\<close>
  | RangeError  \<comment> \<open>raised by the engine: \<^verbatim>\<open>BigInt(x)\<close> for a number that is not an integer\<close>
  | Rejected string  \<comment> \<open>a failure of the client library, the RPC node or the wallet provider\<close>

datatype js_value =
  JUndefined
  | JBool bool
  | JNumber number
  | JBigInt int
  | JString string
  | JArray "js_value list"
  | JObject "(string \<times> js_value) list"

subsection \<open>Binary64 multiplication\<close>

definition pow2 :: "int \<Rightarrow> rat" where
  "pow2 e = (if 0 \<le> e then 2 ^ nat e else 1 / 2 ^ nat (- e))"

definition ilog2 :: "rat \<Rightarrow> int" where
  \<comment> \<open>\<open>\<lfloor>log\<^sub>2 a\<rfloor>\<close> for \<open>0 < a\<close>\<close>
  "ilog2 a = (if 1 \<le> a then bitlen \<lfloor>a\<rfloor> - 1 else - bitlen (\<lceil>1 / a\<rceil> - 1))"

definition roundTiesToEven :: "rat \<Rightarrow> int" where
  "roundTiesToEven y =
     (let f = \<lfloor>y\<rfloor>; d = y - of_int f
      in if d < 1 / 2 then f else if 1 / 2 < d then f + 1 else if even f then f else f + 1)"

definition roundDouble :: "rat \<Rightarrow> number" where
  \<comment> \<open>the binary64 value nearest to \<open>x\<close>, ties to even: 53 significant bits, least
      exponent \<open>-1022\<close> (below it the subnormal spacing \<open>2\<^sup>-\<^sup>1\<^sup>0\<^sup>7\<^sup>4\<close>), overflow to infinity\<close>
  "roundDouble x =
     (if x = 0 then Finite 0
      else let a = \<bar>x\<bar>;
               u = max (ilog2 a) (- 1022) - 52;
               r = of_int (roundTiesToEven (a / pow2 u)) * pow2 u
           in if 2 ^ 1024 \<le> r then (if 0 < x then PosInfinity else NegInfinity)
              else Finite (sgn x * r))"

fun numberMul :: "number \<Rightarrow> number \<Rightarrow> number" where
  "numberMul (Finite a) (Finite b) = roundDouble (a * b)"
| "numberMul NaN _ = NaN"
| "numberMul _ NaN = NaN"
| "numberMul (Finite a) PosInfinity =
     (if a = 0 then NaN else if 0 < a then PosInfinity else NegInfinity)"
| "numberMul (Finite a) NegInfinity =
     (if a = 0 then NaN else if 0 < a then NegInfinity else PosInfinity)"
| "numberMul PosInfinity (Finite b) =
     (if b = 0 then NaN else if 0 < b then PosInfinity else NegInfinity)"
| "numberMul NegInfinity (Finite b) =
     (if b = 0 then NaN else if 0 < b then NegInfinity else PosInfinity)"
| "numberMul PosInfinity PosInfinity = PosInfinity"
| "numberMul PosInfinity NegInfinity = NegInfinity"
| "numberMul NegInfinity PosInfinity = NegInfinity"
| "numberMul NegInfinity NegInfinity = PosInfinity"

definition toNumber :: "number option \<Rightarrow> number" where
  \<comment> \<open>an optional \<^verbatim>\<open>number\<close> property used as an operand: \<^verbatim>\<open>undefined\<close> becomes \<^verbatim>\<open>NaN\<close>\<close>
  "toNumber v = (case v of None \<Rightarrow> NaN | Some n \<Rightarrow> n)"

definition BigInt :: "number \<Rightarrow> error + int" where
  \<comment> \<open>\<^verbatim>\<open>BigInt(x)\<close> of a number: its value if it is an integer, a RangeError otherwise\<close>
  "BigInt n =
     (case n of
        Finite x \<Rightarrow> if x = of_int \<lfloor>x\<rfloor> then Inr \<lfloor>x\<rfloor> else Inl RangeError
      | _ \<Rightarrow> Inl RangeError)"

fun truthy :: "js_value \<Rightarrow> bool" where
  "truthy JUndefined = False"
| "truthy (JBool b) = b"
| "truthy (JNumber n) = (n \<noteq> Finite 0 \<and> n \<noteq> NaN)"
| "truthy (JBigInt i) = (i \<noteq> 0)"
| "truthy (JString s) = (s \<noteq> [])"
| "truthy (JArray _) = True"
| "truthy (JObject _) = True"

definition index :: "js_value list \<Rightarrow> nat \<Rightarrow> js_value" where
  \<comment> \<open>\<^verbatim>\<open>xs[i]\<close> of an array: \<^verbatim>\<open>undefined\<close> out of range\<close>
  "index xs i = (if i < length xs then xs ! i else JUndefined)"

definition first :: "string list \<Rightarrow> js_value" where
  \<comment> \<open>\<^verbatim>\<open>const [x] = xs\<close>: the first element, \<^verbatim>\<open>undefined\<close> for the empty array\<close>
  "first xs = (case xs of [] \<Rightarrow> JUndefined | x # _ \<Rightarrow> JString x)"

section \<open>Data model\<close>

record SwapParams =
  chain :: string
  fromToken :: string
  toToken :: string
  amount :: string
  slippage :: "number option"

record SwapTransaction =
  hash :: string
  fromToken :: string
  toToken :: string
  amountIn :: int
  minAmountOut :: int
  recipient :: js_value

text \<open>
  The chain description of the client library, as far as \<^verbatim>\<open>swap\<close> reads it:
  \<^verbatim>\<open>chain.contracts.uniswapV3Quoter\<close> and \<^verbatim>\<open>chain.contracts.universalRouter\<close>, each
  possibly absent, like \<^verbatim>\<open>contracts\<close> itself.
\<close>

record ChainContract =
  address :: string

record Contracts =
  uniswapV3Quoter :: "ChainContract option"
  universalRouter :: "ChainContract option"

record Chain =
  chainId :: nat
  contracts :: "Contracts option"

record TransactionReceipt =
  status :: js_value

record Quote =
  amountOut :: js_value
  sqrtPriceX96After :: js_value
  initializedTicksCrossed :: js_value
  gasEstimate :: js_value

section \<open>The outside world\<close>

text \<open>
  The client library and the wallet provider are not part of the sources at hand; they
  are parameters of the model. Every call of theirs may fail. A call that goes through a
  client is recorded as an event, in the order the code awaits them.
\<close>

datatype event =
  EvGetAddresses
  | EvCall string string
      \<comment> \<open>\<^verbatim>\<open>publicClient.call({to, data})\<close>: a read-only \<^verbatim>\<open>eth_call\<close>\<close>
  | EvSendTransaction Chain js_value string string
      \<comment> \<open>\<^verbatim>\<open>walletClient.sendTransaction({chain, account, to, data, kzg})\<close>; the \<^verbatim>\<open>kzg\<close>
          entry, two functions that only throw, is left out\<close>
  | EvWaitForTransactionReceipt string

record PublicClient =
  call :: "string \<Rightarrow> string \<Rightarrow> error + string option"
    \<comment> \<open>\<^verbatim>\<open>to\<close>, \<^verbatim>\<open>data\<close>; the answer is \<^verbatim>\<open>response.data\<close>\<close>
  waitForTransactionReceipt :: "string \<Rightarrow> error + TransactionReceipt option"

record WalletClient =
  getAddresses :: "nat \<Rightarrow> error + string list"
    \<comment> \<open>the answer to the \<open>n\<close>-th await of \<^verbatim>\<open>getAddresses()\<close> in a run, counted from \<open>0\<close>;
        a swap awaits it twice, in \<^verbatim>\<open>swap\<close> (\<open>0\<close>) and then in \<^verbatim>\<open>executeSwap\<close> (\<open>1\<close>), and
        the two answers need not agree\<close>
  sendTransaction :: "Chain \<Rightarrow> js_value \<Rightarrow> string \<Rightarrow> string \<Rightarrow> error + string"

record WalletProvider =
  switchChain :: "string \<Rightarrow> error + unit"
  getPublicClient :: "string \<Rightarrow> error + PublicClient"
  getWalletClient :: "string \<Rightarrow> error + WalletClient"
  getChainConfigs :: "string \<Rightarrow> error + Chain"

record Viem =
  parseEther :: "string \<Rightarrow> error + int"
  encodeFunctionData :: "js_value \<Rightarrow> string \<Rightarrow> js_value list \<Rightarrow> error + string"
    \<comment> \<open>\<^verbatim>\<open>abi\<close>, \<^verbatim>\<open>functionName\<close>, \<^verbatim>\<open>args\<close>\<close>
  decodeFunctionResult :: "js_value \<Rightarrow> string \<Rightarrow> string option \<Rightarrow> error + js_value list"
    \<comment> \<open>\<^verbatim>\<open>abi\<close>, \<^verbatim>\<open>functionName\<close>, \<^verbatim>\<open>data\<close>; for a function with several outputs the
        answer is the array of the decoded outputs\<close>
  encodePacked :: "string list \<Rightarrow> js_value list \<Rightarrow> error + string"
  encodeAbiParameters :: "js_value list \<Rightarrow> js_value list \<Rightarrow> error + string"

subsection \<open>Asynchronous code: a result and the events it caused\<close>

type_synonym 'a promise = "(error + 'a) \<times> event list"

definition resolve :: "'a \<Rightarrow> 'a promise" where
  "resolve x = (Inr x, [])"

definition reject :: "error \<Rightarrow> 'a promise" where
  "reject e = (Inl e, [])"

definition sync :: "error + 'a \<Rightarrow> 'a promise" where
  \<comment> \<open>a synchronous expression that may throw\<close>
  "sync r = (r, [])"

definition request :: "event \<Rightarrow> error + 'a \<Rightarrow> 'a promise" where
  \<comment> \<open>a call through a client: recorded, then answered\<close>
  "request ev r = (r, [ev])"

definition await :: "'a promise \<Rightarrow> ('a \<Rightarrow> 'b promise) \<Rightarrow> 'b promise" where
  "await m f =
     (case m of
        (Inl e, t) \<Rightarrow> (Inl e, t)
      | (Inr x, t) \<Rightarrow> (case f x of (r, t') \<Rightarrow> (r, t @ t')))"

definition defined :: "'a option \<Rightarrow> error + 'a" where
  \<comment> \<open>a property read \<^verbatim>\<open>x.p\<close>: a TypeError when \<^verbatim>\<open>x\<close> is \<^verbatim>\<open>undefined\<close>\<close>
  "defined x = (case x of None \<Rightarrow> Inl TypeError | Some v \<Rightarrow> Inr v)"

section \<open>The quoter and the router call\<close>

definition abiParam :: "string \<Rightarrow> string \<Rightarrow> string \<Rightarrow> js_value" where
  \<comment> \<open>\<^verbatim>\<open>{ internalType, name, type }\<close>\<close>
  "abiParam internalType name type =
     JObject [(''internalType'', JString internalType), (''name'', JString name),
              (''type'', JString type)]"

definition quoterAbi :: js_value where
  "quoterAbi =
     JArray [JObject
       [(''inputs'', JArray [JObject
           [(''components'', JArray
               [abiParam ''address'' ''tokenIn'' ''address'',
                abiParam ''address'' ''tokenOut'' ''address'',
                abiParam ''uint256'' ''amountIn'' ''uint256'',
                abiParam ''uint24'' ''fee'' ''uint24'',
                abiParam ''uint160'' ''sqrtPriceLimitX96'' ''uint160'']),
            (''internalType'', JString ''struct IQuoterV2.QuoteExactInputSingleParams''),
            (''name'', JString ''params''),
            (''type'', JString ''tuple'')]]),
        (''name'', JString ''quoteExactInputSingle''),
        (''outputs'', JArray
           [abiParam ''uint256'' ''amountOut'' ''uint256'',
            abiParam ''uint160'' ''sqrtPriceX96After'' ''uint160'',
            abiParam ''uint32'' ''initializedTicksCrossed'' ''uint32'',
            abiParam ''uint256'' ''gasEstimate'' ''uint256'']),
        (''stateMutability'', JString ''nonpayable''),
        (''type'', JString ''function'')]]"

definition quoteArgs :: "string \<Rightarrow> string \<Rightarrow> int \<Rightarrow> number \<Rightarrow> js_value list" where
  \<comment> \<open>the \<^verbatim>\<open>args\<close> of the quoter call: one struct, the price limit fixed at \<^verbatim>\<open>0n\<close>\<close>
  "quoteArgs fromToken' toToken' amountIn' fee =
     [JObject [(''tokenIn'', JString fromToken'), (''tokenOut'', JString toToken'),
               (''amountIn'', JBigInt amountIn'), (''fee'', JNumber fee),
               (''sqrtPriceLimitX96'', JBigInt 0)]]"

definition getQuote ::
  "Viem \<Rightarrow> PublicClient \<Rightarrow> string \<Rightarrow> string \<Rightarrow> string \<Rightarrow> int \<Rightarrow> number \<Rightarrow> Quote promise"
where
  "getQuote viem client quoterContractAddress fromToken' toToken' amountIn' fee =
     \<comment> \<open>Prepare the call\<close>
     await (sync (encodeFunctionData viem quoterAbi ''quoteExactInputSingle''
                    (quoteArgs fromToken' toToken' amountIn' fee))) (\<lambda>encodedData.
     \<comment> \<open>Perform the static call\<close>
     await (request (EvCall quoterContractAddress encodedData)
                    (call client quoterContractAddress encodedData)) (\<lambda>response.
     \<comment> \<open>Decode the response\<close>
     await (sync (decodeFunctionResult viem quoterAbi ''quoteExactInputSingle'' response))
       (\<lambda>result.
     \<comment> \<open>Extract the individual outputs\<close>
     resolve \<lparr>amountOut = index result 0, sqrtPriceX96After = index result 1,
              initializedTicksCrossed = index result 2, gasEstimate = index result 3\<rparr>)))"

definition SWAP_EXACT_IN :: string where
  "SWAP_EXACT_IN = ''0x00''"

definition swapInputParams :: "js_value list" where
  \<comment> \<open>the parameter descriptors given to \<^verbatim>\<open>encodeAbiParameters\<close>\<close>
  "swapInputParams =
     [JObject [(''type'', JString ''address''), (''name'', JString ''recipient'')],
      JObject [(''type'', JString ''uint256''), (''name'', JString ''amountIn'')],
      JObject [(''type'', JString ''uint256''), (''name'', JString ''amountOutMin'')],
      JObject [(''type'', JString ''bytes''), (''name'', JString ''path'')],
      JObject [(''type'', JString ''bool''), (''name'', JString ''payerIsUser'')]]"

definition executeAbi :: js_value where
  "executeAbi =
     JArray [JObject
       [(''inputs'', JArray
           [JObject [(''type'', JString ''bytes''), (''name'', JString ''commands'')],
            JObject [(''type'', JString ''bytes[]''), (''name'', JString ''inputs'')]]),
        (''name'', JString ''execute''),
        (''outputs'', JArray []),
        (''stateMutability'', JString ''payable''),
        (''type'', JString ''function'')]]"

definition executeSwap ::
  "Viem \<Rightarrow> Chain \<Rightarrow> WalletClient \<Rightarrow> string \<Rightarrow> string \<Rightarrow> string \<Rightarrow> int \<Rightarrow> int \<Rightarrow> number
     \<Rightarrow> string promise"
where
  "executeSwap viem chain' client universalRouter' fromToken' toToken' amountIn' amountOutMin fee =
     \<comment> \<open>the second address lookup of the swap\<close>
     await (request EvGetAddresses (getAddresses client 1)) (\<lambda>addresses.
     \<comment> \<open>Define the path and input parameters\<close>
     await (sync (encodePacked viem [''address'', ''uint24'', ''address'']
                    [JString fromToken', JNumber fee, JString toToken'])) (\<lambda>v3SwapRoute.
     await (sync (encodeAbiParameters viem swapInputParams
                    [first addresses, JBigInt amountIn', JBigInt amountOutMin,
                     JString v3SwapRoute, JBool True])) (\<lambda>inputs.
     await (sync (encodeFunctionData viem executeAbi ''execute''
                    [JString SWAP_EXACT_IN, JArray [JString inputs]])) (\<lambda>callData.
     \<comment> \<open>Send the transaction\<close>
     request (EvSendTransaction chain' (first addresses) universalRouter' callData)
             (sendTransaction client chain' (first addresses) universalRouter' callData)))))"

section \<open>The swap\<close>

definition receiptFailed :: "TransactionReceipt option \<Rightarrow> bool" where
  \<comment> \<open>\<^verbatim>\<open>!receipt?.status || receipt!.status === "reverted"\<close>\<close>
  "receiptFailed receipt =
     (case receipt of
        None \<Rightarrow> True
      | Some r \<Rightarrow> \<not> truthy (status r) \<or> status r = JString ''reverted'')"

definition swap :: "Viem \<Rightarrow> WalletProvider \<Rightarrow> SwapParams \<Rightarrow> SwapTransaction promise" where
  "swap viem walletProvider params =
     await (sync (switchChain walletProvider (chain params))) (\<lambda>_.
     await (sync (getPublicClient walletProvider (chain params))) (\<lambda>publicClient.
     await (sync (getWalletClient walletProvider (chain params))) (\<lambda>walletClient.
     await (sync (getChainConfigs walletProvider (chain params))) (\<lambda>chain'.
     \<comment> \<open>the first address lookup of the swap\<close>
     await (request EvGetAddresses (getAddresses walletClient 0)) (\<lambda>addresses.
     \<comment> \<open>\<^verbatim>\<open>chain.contracts.uniswapV3Quoter\<close>, \<^verbatim>\<open>chain.contracts.universalRouter\<close>\<close>
     await (sync (defined (contracts chain'))) (\<lambda>contracts'.
     \<comment> \<open>1. Get the quote; the arguments first: \<^verbatim>\<open>uniswapV3Quoter.address\<close>,
         \<^verbatim>\<open>parseEther(params.amount)\<close>\<close>
     await (sync (defined (uniswapV3Quoter contracts'))) (\<lambda>uniswapV3Quoter'.
     await (sync (parseEther viem (amount params))) (\<lambda>amountIn1.
     await (getQuote viem publicClient (address uniswapV3Quoter')
              (SwapParams.fromToken params) (SwapParams.toToken params) amountIn1 (Finite 3000))
       (\<lambda>quote.
     \<comment> \<open>2. calculate the minimum amount out\<close>
     await (sync (BigInt (numberMul (toNumber (slippage params)) (Finite 10000))))
       (\<lambda>slippageBP.
     \<comment> \<open>BigInt arithmetic: a TypeError unless both operands are BigInt; \<^verbatim>\<open>/\<close> truncates\<close>
     await (sync (case amountOut quote of
                    JBigInt q \<Rightarrow> Inr (q - (q * slippageBP) sdiv 100000)
                  | _ \<Rightarrow> Inl TypeError)) (\<lambda>minAmountOut'.
     \<comment> \<open>3. execute the swap; the arguments first: \<^verbatim>\<open>universalRouter.address\<close>,
         \<^verbatim>\<open>parseEther(params.amount)\<close>\<close>
     await (sync (defined (universalRouter contracts'))) (\<lambda>universalRouter'.
     await (sync (parseEther viem (amount params))) (\<lambda>amountIn2.
     await (executeSwap viem chain' walletClient (address universalRouter')
              (SwapParams.fromToken params) (SwapParams.toToken params) amountIn2 minAmountOut'
              (Finite 3000)) (\<lambda>tx.
     await (request (EvWaitForTransactionReceipt tx) (waitForTransactionReceipt publicClient tx))
       (\<lambda>receipt.
     if receiptFailed receipt then reject (Error ''Transaction failed'')
     else
       await (sync (parseEther viem (amount params))) (\<lambda>amountIn3.
       resolve \<lparr>hash = tx,
                fromToken = SwapParams.fromToken params,
                toToken = SwapParams.toToken params,
                amountIn = amountIn3,
                minAmountOut = minAmountOut',
                recipient = first addresses\<rparr>))))))))))))))))"

section \<open>A stub environment\<close>

text \<open>
  A test double of the client library and the wallet provider, on which the model runs to
  a value: every call succeeds, the quoter answers \<open>1000000\<close>, the amount \<^verbatim>\<open>"1.0"\<close>
  parses to \<open>10\<^sup>1\<^sup>8\<close>.
\<close>

definition stubViem :: Viem where
  "stubViem =
     \<lparr>parseEther = (\<lambda>s. if s = ''1.0'' then Inr 1000000000000000000
                          else Inl (Rejected ''InvalidDecimalNumberError'')),
      encodeFunctionData = (\<lambda>abi functionName args.
         if functionName = ''quoteExactInputSingle'' then Inr ''0xc6a5026a''
         else if functionName = ''execute'' then Inr ''0x24856bc3''
         else Inl (Rejected ''AbiFunctionNotFoundError'')),
      decodeFunctionResult = (\<lambda>abi functionName data.
         case data of
           None \<Rightarrow> Inl (Rejected ''AbiDecodingZeroDataError'')
         | Some d \<Rightarrow> Inr [JBigInt 1000000, JBigInt 0, JNumber (Finite 1), JBigInt 100000]),
      encodePacked = (\<lambda>types values. Inr ''0x01''),
      encodeAbiParameters = (\<lambda>params values. Inr ''0x02'')\<rparr>"

definition stubContracts :: Contracts where
  "stubContracts = \<lparr>uniswapV3Quoter = Some \<lparr>address = ''0xQ''\<rparr>,
                     universalRouter = Some \<lparr>address = ''0xR''\<rparr>\<rparr>"

definition stubChain :: "Contracts option \<Rightarrow> Chain" where
  "stubChain cs = \<lparr>chainId = 1890, contracts = cs\<rparr>"

definition stubPublicClient :: "js_value \<Rightarrow> PublicClient" where
  \<comment> \<open>the argument is the status of the receipt it reports\<close>
  "stubPublicClient st =
     \<lparr>call = (\<lambda>to data. Inr (Some ''0x03'')),
      waitForTransactionReceipt = (\<lambda>h. Inr (Some \<lparr>status = st\<rparr>))\<rparr>"

definition revertingPublicClient :: PublicClient where
  \<comment> \<open>a node on which the quoter call reverts\<close>
  "revertingPublicClient =
     \<lparr>call = (\<lambda>to data. Inl (Rejected ''CallExecutionError'')),
      waitForTransactionReceipt = (\<lambda>h. Inr None)\<rparr>"

definition stubWalletClient :: WalletClient where
  "stubWalletClient =
     \<lparr>getAddresses = (\<lambda>n. Inr [''0xA'']),
      sendTransaction = (\<lambda>c account to data. Inr ''0xH'')\<rparr>"

definition switchingWalletClient :: WalletClient where
  \<comment> \<open>a wallet whose account list changes between the two lookups of a swap\<close>
  "switchingWalletClient =
     \<lparr>getAddresses = (\<lambda>n. if n = 0 then Inr [''0xA''] else Inr [''0xB'']),
      sendTransaction = (\<lambda>c account to data. Inr ''0xH'')\<rparr>"

definition stubProvider :: "PublicClient \<Rightarrow> Chain \<Rightarrow> WalletProvider" where
  "stubProvider pc c =
     \<lparr>switchChain = (\<lambda>n. Inr ()),
      getPublicClient = (\<lambda>n. Inr pc),
      getWalletClient = (\<lambda>n. Inr stubWalletClient),
      getChainConfigs = (\<lambda>n. Inr c)\<rparr>"

definition stubParams :: "number option \<Rightarrow> SwapParams" where
  "stubParams s = \<lparr>chain = ''lightlink'', fromToken = ''0xT1'', toToken = ''0xT2'',
                    amount = ''1.0'', slippage = s\<rparr>"

definition double_0_01 :: rat where
  \<comment> \<open>the binary64 value of the literal \<^verbatim>\<open>0.01\<close>\<close>
  "double_0_01 = 5764607523034235 / 576460752303423488"

definition double_0_07 :: rat where
  \<comment> \<open>the binary64 value of the literal \<^verbatim>\<open>0.07\<close>\<close>
  "double_0_07 = 1261007895663739 / 18014398509481984"

abbreviation okProvider :: WalletProvider where
  "okProvider \<equiv>
     stubProvider (stubPublicClient (JString ''success'')) (stubChain (Some stubContracts))"

abbreviation revertedProvider :: WalletProvider where
  "revertedProvider \<equiv>
     stubProvider (stubPublicClient (JString ''reverted'')) (stubChain (Some stubContracts))"

abbreviation noQuoteProvider :: WalletProvider where
  "noQuoteProvider \<equiv> stubProvider revertingPublicClient (stubChain (Some stubContracts))"

abbreviation noRouterProvider :: WalletProvider where
  "noRouterProvider \<equiv>
     stubProvider (stubPublicClient (JString ''success''))
       (stubChain (Some (stubContracts\<lparr>universalRouter := None\<rparr>)))"

abbreviation noQuoterProvider :: WalletProvider where
  "noQuoterProvider \<equiv>
     stubProvider (stubPublicClient (JString ''success''))
       (stubChain (Some (stubContracts\<lparr>uniswapV3Quoter := None\<rparr>)))"


abbreviation okParams :: SwapParams where
  "okParams \<equiv> stubParams (Some (Finite double_0_01))"

abbreviation okTx :: SwapTransaction where
  "okTx \<equiv> \<lparr>hash = ''0xH'', fromToken = ''0xT1'', toToken = ''0xT2'',
            amountIn = 1000000000000000000, minAmountOut = 999000,
            recipient = JString ''0xA''\<rparr>"

abbreviation okTrace :: "event list" where
  "okTrace \<equiv>
     [EvGetAddresses, EvCall ''0xQ'' ''0xc6a5026a'', EvGetAddresses,
      EvSendTransaction (stubChain (Some stubContracts)) (JString ''0xA'') ''0xR'' ''0x24856bc3'',
      EvWaitForTransactionReceipt ''0xH'']"

section \<open>Specification vocabulary\<close>

definition executeCallData ::
  "Viem \<Rightarrow> string \<Rightarrow> string \<Rightarrow> js_value \<Rightarrow> int \<Rightarrow> int \<Rightarrow> error + string"
where
  \<comment> \<open>the call data of one \<^verbatim>\<open>execute\<close> call with the command byte \<^verbatim>\<open>0x00\<close> and the single input
      (recipient, amountIn, amountOutMin, path, payerIsUser = true), the path packed from
      the two tokens and the fee tier 3000\<close>
  "executeCallData viem tokenIn tokenOut rcpt a m =
     (case encodePacked viem [''address'', ''uint24'', ''address'']
             [JString tokenIn, JNumber (Finite 3000), JString tokenOut] of
        Inl e \<Rightarrow> Inl e
      | Inr path \<Rightarrow>
          (case encodeAbiParameters viem swapInputParams
                  [rcpt, JBigInt a, JBigInt m, JString path, JBool True] of
             Inl e \<Rightarrow> Inl e
           | Inr inputs \<Rightarrow>
               encodeFunctionData viem executeAbi ''execute''
                 [JString ''0x00'', JArray [JString inputs]]))"

definition reachedSend ::
  "Viem \<Rightarrow> WalletProvider \<Rightarrow> SwapParams \<Rightarrow> PublicClient \<Rightarrow> WalletClient \<Rightarrow> Chain \<Rightarrow> string list
     \<Rightarrow> ChainContract \<Rightarrow> ChainContract \<Rightarrow> int \<Rightarrow> string \<Rightarrow> string option \<Rightarrow> js_value list
     \<Rightarrow> int \<Rightarrow> int \<Rightarrow> string \<Rightarrow> bool"
where
  \<comment> \<open>what has happened when \<^verbatim>\<open>swap\<close> hands the call data \<open>dat\<close> to \<^verbatim>\<open>sendTransaction\<close>:
      the answers of the provider, the addresses \<open>addrs\<close> of the second lookup, the quote
      \<open>q\<close> decoded from the quoter's response, the basis points \<open>k\<close>, and the call data built
      from them\<close>
  "reachedSend viem wp params pc wc c addrs qc rc a d resp result q k dat \<longleftrightarrow>
     getPublicClient wp (chain params) = Inr pc \<and>
     getWalletClient wp (chain params) = Inr wc \<and>
     getChainConfigs wp (chain params) = Inr c \<and>
     getAddresses wc 1 = Inr addrs \<and>
     Option.bind (contracts c) uniswapV3Quoter = Some qc \<and>
     Option.bind (contracts c) universalRouter = Some rc \<and>
     parseEther viem (amount params) = Inr a \<and>
     encodeFunctionData viem quoterAbi ''quoteExactInputSingle''
       (quoteArgs (SwapParams.fromToken params) (SwapParams.toToken params) a (Finite 3000))
       = Inr d \<and>
     call pc (address qc) d = Inr resp \<and>
     decodeFunctionResult viem quoterAbi ''quoteExactInputSingle'' resp = Inr result \<and>
     index result 0 = JBigInt q \<and>
     BigInt (numberMul (toNumber (slippage params)) (Finite 10000)) = Inr k \<and>
     executeCallData viem (SwapParams.fromToken params) (SwapParams.toToken params)
       (first addrs) a (q - (q * k) sdiv 100000) = Inr dat"

section \<open>Auxiliary facts\<close>

lemmas promise_defs = await_def sync_def request_def resolve_def reject_def

lemmas swap_defs = swap_def getQuote_def executeSwap_def promise_defs defined_def
  SWAP_EXACT_IN_def

lemmas stub_defs = stubViem_def stubContracts_def stubChain_def stubPublicClient_def
  revertingPublicClient_def stubWalletClient_def switchingWalletClient_def stubProvider_def
  stubParams_def
  receiptFailed_def index_def first_def

subsection \<open>Rounding\<close>

lemma pow2_pos: "0 < pow2 e"
  by (simp add: pow2_def)

lemma roundTiesToEven_nonneg: "0 \<le> y \<Longrightarrow> 0 \<le> roundTiesToEven y"
  by (auto simp: roundTiesToEven_def Let_def)

lemma roundTiesToEven_le_int:
  assumes "y \<le> of_int n"
  shows "roundTiesToEven y \<le> n"
proof -
  have fl: "\<lfloor>y\<rfloor> \<le> n" using assms by (simp add: floor_le_iff)
  show ?thesis
  proof (cases "\<lfloor>y\<rfloor> = n")
    case True
    then have "y = of_int n" using assms by linarith
    then show ?thesis by (simp add: roundTiesToEven_def)
  next
    case False
    with fl have "\<lfloor>y\<rfloor> + 1 \<le> n" by simp
    then show ?thesis by (auto simp: roundTiesToEven_def Let_def)
  qed
qed

lemma ilog2_le_13:
  assumes "0 < a" "a \<le> 10000"
  shows "ilog2 a \<le> 13"
proof (cases "1 \<le> a")
  case True
  have "\<lfloor>a\<rfloor> \<le> 10000" using assms by (simp add: floor_le_iff)
  then have "\<lfloor>a\<rfloor> < 2 ^ 14" by simp
  then have "bitlen \<lfloor>a\<rfloor> \<le> 14"
    using bitlen_le_iff_power[of "\<lfloor>a\<rfloor>" 14] by simp
  with True show ?thesis by (simp add: ilog2_def)
next
  case False
  have "0 \<le> bitlen (\<lceil>1 / a\<rceil> - 1)" by (rule bitlen_nonneg)
  with False show ?thesis by (simp add: ilog2_def)
qed

lemma roundDouble_pos_Finite:
  assumes "0 < x" "roundDouble x = Finite r"
  shows "r = of_int (roundTiesToEven (x / pow2 (max (ilog2 x) (- 1022) - 52)))
              * pow2 (max (ilog2 x) (- 1022) - 52)"
proof -
  let ?u = "max (ilog2 x) (- 1022) - 52"
  let ?r = "of_int (roundTiesToEven (x / pow2 ?u)) * pow2 ?u"
  have ne: "x \<noteq> 0" and ab: "\<bar>x\<bar> = x" and sg: "sgn x = 1" using assms(1) by simp_all
  have "roundDouble x = (if 2 ^ 1024 \<le> ?r then PosInfinity else Finite ?r)"
    unfolding roundDouble_def Let_def ab sg using assms(1) ne by simp
  with assms(2) show ?thesis by (simp split: if_splits)
qed

lemma roundDouble_bounds_10000:
  assumes "0 \<le> x" "x \<le> 10000" "roundDouble x = Finite r"
  shows "0 \<le> r \<and> r \<le> 10000"
proof (cases "x = 0")
  case True
  with assms(3) show ?thesis by (simp add: roundDouble_def)
next
  case False
  with assms have pos: "0 < x" by simp
  define u where "u = max (ilog2 x) (- 1022) - 52"
  define m where "m = roundTiesToEven (x / pow2 u)"
  have r: "r = of_int m * pow2 u"
    unfolding m_def u_def using pos assms(3) by (rule roundDouble_pos_Finite)
  have "ilog2 x \<le> 13" using pos assms(2) by (rule ilog2_le_13)
  then have u: "u \<le> - 39" unfolding u_def by linarith
  define k where "k = nat (- u)"
  have p: "pow2 u = 1 / 2 ^ k" using u by (simp add: pow2_def k_def)
  have "x / pow2 u = x * 2 ^ k" by (simp add: p)
  also have "\<dots> \<le> 10000 * 2 ^ k" using assms(2) by (simp add: mult_right_mono)
  also have "\<dots> = of_int (10000 * 2 ^ k)" by simp
  finally have "m \<le> 10000 * 2 ^ k"
    unfolding m_def by (rule roundTiesToEven_le_int)
  then have "(of_int m :: rat) \<le> of_int (10000 * 2 ^ k)"
    by (simp only: of_int_le_iff)
  then have "(of_int m :: rat) \<le> 10000 * 2 ^ k" by simp
  then have "of_int m / 2 ^ k \<le> (10000 :: rat)"
    by (simp add: pos_divide_le_eq)
  then have up: "r \<le> 10000" by (simp add: r p)
  have "0 \<le> x / pow2 u" using pow2_pos[of u] pos by simp
  then have "0 \<le> m" unfolding m_def by (rule roundTiesToEven_nonneg)
  then have "0 \<le> r" using pow2_pos[of u] by (simp add: r)
  with up show ?thesis by simp
qed

lemma roundTiesToEven_near: "\<bar>of_int (roundTiesToEven y) - y\<bar> \<le> 1 / 2"
proof -
  define d where "d = y - of_int \<lfloor>y\<rfloor>"
  have d: "0 \<le> d" "d < 1" unfolding d_def by linarith+
  have y: "y = of_int \<lfloor>y\<rfloor> + d" by (simp add: d_def)
  consider "d < 1 / 2" | "1 / 2 < d" | "d = 1 / 2" by linarith
  then show ?thesis
  proof cases
    case 1
    then have "roundTiesToEven y = \<lfloor>y\<rfloor>"
      by (simp add: roundTiesToEven_def Let_def d_def)
    with 1 d show ?thesis by (simp add: d_def)
  next
    case 2
    then have "roundTiesToEven y = \<lfloor>y\<rfloor> + 1"
      by (simp add: roundTiesToEven_def Let_def d_def)
    then have "of_int (roundTiesToEven y) - y = 1 - d" by (simp add: d_def)
    with 2 d show ?thesis by simp
  next
    case 3
    then have "roundTiesToEven y = \<lfloor>y\<rfloor> \<or> roundTiesToEven y = \<lfloor>y\<rfloor> + 1"
      by (simp add: roundTiesToEven_def Let_def d_def)
    then have "of_int (roundTiesToEven y) - y = - d \<or> of_int (roundTiesToEven y) - y = 1 - d"
      by (auto simp: d_def)
    with 3 show ?thesis by auto
  qed
qed

lemma roundDouble_near_10000:
  assumes "0 \<le> x" "x \<le> 10000" "roundDouble x = Finite r"
  shows "\<bar>r - x\<bar> \<le> 1 / 2 ^ 40"
proof (cases "x = 0")
  case True
  with assms(3) show ?thesis by (simp add: roundDouble_def)
next
  case False
  with assms have pos: "0 < x" by simp
  define u where "u = max (ilog2 x) (- 1022) - 52"
  define m where "m = roundTiesToEven (x / pow2 u)"
  have r: "r = of_int m * pow2 u"
    unfolding m_def u_def using pos assms(3) by (rule roundDouble_pos_Finite)
  have "ilog2 x \<le> 13" using pos assms(2) by (rule ilog2_le_13)
  then have u: "u \<le> - 39" unfolding u_def by linarith
  define k where "k = nat (- u)"
  have k: "39 \<le> k" using u by (simp add: k_def)
  have p: "pow2 u = 1 / 2 ^ k" using u by (simp add: pow2_def k_def)
  have "\<bar>of_int m - x / pow2 u\<bar> \<le> 1 / 2"
    unfolding m_def by (rule roundTiesToEven_near)
  then have "\<bar>of_int m - x * 2 ^ k\<bar> \<le> 1 / 2" by (simp add: p)
  then have "\<bar>of_int m - x * 2 ^ k\<bar> / 2 ^ k \<le> (1 / 2) / 2 ^ k"
    by (rule divide_right_mono) simp
  moreover have "\<bar>of_int m - x * 2 ^ k\<bar> / 2 ^ k = \<bar>r - x\<bar>"
  proof -
    have "r - x = (of_int m - x * 2 ^ k) / 2 ^ k"
      by (simp add: r p diff_divide_distrib)
    then show ?thesis by (simp add: abs_divide)
  qed
  ultimately have "\<bar>r - x\<bar> \<le> (1 / 2) / 2 ^ k" by simp
  also have "\<dots> = 1 / 2 ^ Suc k" by simp
  also have "\<dots> \<le> 1 / 2 ^ 40"
  proof -
    have "(2::rat) ^ 40 \<le> 2 ^ Suc k" using k by (intro power_increasing) simp_all
    then show ?thesis by (simp add: frac_le)
  qed
  finally show ?thesis .
qed

lemma round_near_int:
  fixes x :: rat
  assumes "\<bar>of_int k - x\<bar> \<le> 1 / 2 ^ 40"
  shows "round x = k"
proof -
  have "(1::rat) / 2 ^ 40 < 1 / 2" by simp
  with assms have "\<bar>of_int k - x\<bar> < 1 / 2" by linarith
  then have "of_int k \<le> x + 1 / 2" "x + 1 / 2 < of_int k + 1" by (simp_all add: abs_if split: if_splits)
  then have "\<lfloor>x + 1 / 2\<rfloor> = k" by (simp add: floor_unique)
  then show ?thesis by (simp add: round_def)
qed

lemma numberMul_bounds:
  assumes "0 \<le> s" "s \<le> 1" "numberMul (Finite s) (Finite 10000) = Finite r"
  shows "0 \<le> r \<and> r \<le> 10000"
proof -
  have "0 \<le> s * 10000" "s * 10000 \<le> 10000" using assms by simp_all
  moreover have "roundDouble (s * 10000) = Finite r" using assms(3) by simp
  ultimately show ?thesis by (rule roundDouble_bounds_10000)
qed

lemma numberMul_zero: "numberMul (Finite 0) (Finite 10000) = Finite 0"
  by (simp add: roundDouble_def)

lemma BigInt_Inr_iff: "BigInt n = Inr k \<longleftrightarrow> n = Finite (of_int k)"
  by (auto simp: BigInt_def split: number.splits)

lemma BigInt_Inl: "BigInt n = Inl e \<Longrightarrow> e = RangeError"
  by (auto simp: BigInt_def split: number.splits if_splits)

lemma sdiv_nonneg: "0 \<le> a \<Longrightarrow> 0 < b \<Longrightarrow> a sdiv b = a div (b::int)"
  by (cases "a = 0") (simp_all add: signed_divide_int_def)

subsection \<open>The literals 0.01 and 0.07, and three products\<close>

lemma double_0_01: "roundDouble (1 / 100) = Finite double_0_01"
  unfolding double_0_01_def by code_simp

lemma double_0_07: "roundDouble (7 / 100) = Finite double_0_07"
  unfolding double_0_07_def by code_simp

lemma slippageBP_0_01:
  "BigInt (numberMul (toNumber (Some (Finite double_0_01))) (Finite 10000)) = Inr 100"
  unfolding double_0_01_def by code_simp

lemma slippageBP_0_07:
  "BigInt (numberMul (toNumber (Some (Finite double_0_07))) (Finite 10000)) = Inl RangeError"
  unfolding double_0_07_def by code_simp

lemma slippageBP_1_32:
  "BigInt (numberMul (toNumber (Some (Finite (1 / 32)))) (Finite 10000)) = Inl RangeError"
  by code_simp

lemma slippageBP_2:
  "BigInt (numberMul (toNumber (Some (Finite 2))) (Finite 10000)) = Inr 20000"
  by code_simp

subsection \<open>Runs on the stub environment\<close>

lemma swap_stub_0_01:
  "swap stubViem okProvider (stubParams (Some (Finite double_0_01))) =
   (Inr \<lparr>hash = ''0xH'', fromToken = ''0xT1'', toToken = ''0xT2'',
          amountIn = 1000000000000000000, minAmountOut = 999000,
          recipient = JString ''0xA''\<rparr>, okTrace)"
  by (simp add: swap_defs stub_defs slippageBP_0_01)

lemma swap_stub_0_07:
  "swap stubViem okProvider (stubParams (Some (Finite double_0_07))) =
   (Inl RangeError, [EvGetAddresses, EvCall ''0xQ'' ''0xc6a5026a''])"
  by (simp add: swap_defs stub_defs slippageBP_0_07)

lemma swap_stub_1_32:
  "swap stubViem okProvider (stubParams (Some (Finite (1 / 32)))) =
   (Inl RangeError, [EvGetAddresses, EvCall ''0xQ'' ''0xc6a5026a''])"
  by (simp add: swap_defs stub_defs slippageBP_1_32)

lemma swap_stub_2:
  "swap stubViem okProvider (stubParams (Some (Finite 2))) =
   (Inr \<lparr>hash = ''0xH'', fromToken = ''0xT1'', toToken = ''0xT2'',
          amountIn = 1000000000000000000, minAmountOut = 800000,
          recipient = JString ''0xA''\<rparr>, okTrace)"
  by (simp add: swap_defs stub_defs slippageBP_2)

lemma swap_stub_no_router:
  "swap stubViem noRouterProvider (stubParams (Some (Finite double_0_01))) =
   (Inl TypeError, [EvGetAddresses, EvCall ''0xQ'' ''0xc6a5026a''])"
  by (simp add: swap_defs stub_defs slippageBP_0_01)

lemma swap_stub_reverted:
  "swap stubViem revertedProvider (stubParams (Some (Finite double_0_01))) =
   (Inl (Error ''Transaction failed''), okTrace)"
  by (simp add: swap_defs stub_defs slippageBP_0_01)

lemma swap_stub_quote_reverts:
  "swap stubViem noQuoteProvider (stubParams (Some (Finite double_0_01))) =
   (Inl (Rejected ''CallExecutionError''), [EvGetAddresses, EvCall ''0xQ'' ''0xc6a5026a''])"
  by (simp add: swap_defs stub_defs slippageBP_0_01)

lemma getQuote_stub:
  "getQuote stubViem (stubPublicClient st) ''0xQ'' ''0xT1'' ''0xT2'' 1000000000000000000
     (Finite 3000) =
   (Inr \<lparr>amountOut = JBigInt 1000000, sqrtPriceX96After = JBigInt 0,
          initializedTicksCrossed = JNumber (Finite 1), gasEstimate = JBigInt 100000\<rparr>,
    [EvCall ''0xQ'' ''0xc6a5026a''])"
  by (simp add: getQuote_def promise_defs stub_defs)

subsection \<open>What a run that reaches a client call has done before\<close>

lemmas all_splits = sum.splits option.splits js_value.splits if_splits prod.splits

lemma executeCallData_Inr:
  assumes "encodePacked viem [''address'', ''uint24'', ''address'']
             [JString tokenIn, JNumber (Finite 3000), JString tokenOut] = Inr path"
    and "encodeAbiParameters viem swapInputParams
           [rcpt, JBigInt a, JBigInt m, JString path, JBool True] = Inr inputs"
    and "encodeFunctionData viem executeAbi ''execute''
           [JString ''0x00'', JArray [JString inputs]] = Inr dat"
  shows "executeCallData viem tokenIn tokenOut rcpt a m = Inr dat"
  using assms by (simp add: executeCallData_def)

lemma swap_call_D:
  assumes "EvCall qa d \<in> set (snd (swap viem wp params))"
  shows "\<exists>c qc a.
           getChainConfigs wp (chain params) = Inr c \<and>
           Option.bind (contracts c) uniswapV3Quoter = Some qc \<and> qa = address qc \<and>
           parseEther viem (amount params) = Inr a \<and>
           encodeFunctionData viem quoterAbi ''quoteExactInputSingle''
             (quoteArgs (SwapParams.fromToken params) (SwapParams.toToken params) a
                (Finite 3000)) = Inr d"
  using assms
  by (auto simp: swap_defs split: all_splits)

lemma swap_send_D:
  assumes "EvSendTransaction c acct to' dat \<in> set (snd (swap viem wp params))"
  shows "\<exists>pc wc addrs qc rc a d resp result q k.
           reachedSend viem wp params pc wc c addrs qc rc a d resp result q k dat \<and>
           acct = first addrs \<and> to' = address rc \<and>
           EvCall (address qc) d \<in> set (snd (swap viem wp params))"
proof -
  from assms have "\<exists>pc wc addrs cs qc rc a d resp result q k path inputs.
      getPublicClient wp (chain params) = Inr pc \<and>
      getWalletClient wp (chain params) = Inr wc \<and>
      getChainConfigs wp (chain params) = Inr c \<and>
      getAddresses wc 1 = Inr addrs \<and>
      contracts c = Some cs \<and> uniswapV3Quoter cs = Some qc \<and> universalRouter cs = Some rc \<and>
      parseEther viem (amount params) = Inr a \<and>
      encodeFunctionData viem quoterAbi ''quoteExactInputSingle''
        (quoteArgs (SwapParams.fromToken params) (SwapParams.toToken params) a (Finite 3000))
        = Inr d \<and>
      call pc (address qc) d = Inr resp \<and>
      decodeFunctionResult viem quoterAbi ''quoteExactInputSingle'' resp = Inr result \<and>
      index result 0 = JBigInt q \<and>
      BigInt (numberMul (toNumber (slippage params)) (Finite 10000)) = Inr k \<and>
      encodePacked viem [''address'', ''uint24'', ''address'']
        [JString (SwapParams.fromToken params), JNumber (Finite 3000),
         JString (SwapParams.toToken params)] = Inr path \<and>
      encodeAbiParameters viem swapInputParams
        [first addrs, JBigInt a, JBigInt (q - (q * k) sdiv 100000), JString path, JBool True]
        = Inr inputs \<and>
      encodeFunctionData viem executeAbi ''execute''
        [JString ''0x00'', JArray [JString inputs]] = Inr dat \<and>
      acct = first addrs \<and> to' = address rc \<and>
      EvCall (address qc) d \<in> set (snd (swap viem wp params))"
    by (auto simp: swap_defs split: all_splits)
  then show ?thesis
    unfolding reachedSend_def by (fastforce intro: executeCallData_Inr)
qed




lemma swap_Inr_quote_D:
  assumes "fst (swap viem wp params) = Inr tx"
  shows "\<exists>pc qa d resp result q k.
         getPublicClient wp (chain params) = Inr pc \<and>
         EvCall qa d \<in> set (snd (swap viem wp params)) \<and> call pc qa d = Inr resp \<and>
         decodeFunctionResult viem quoterAbi ''quoteExactInputSingle'' resp = Inr result \<and>
         index result 0 = JBigInt q \<and>
         BigInt (numberMul (toNumber (slippage params)) (Finite 10000)) = Inr k \<and>
         minAmountOut tx = q - (q * k) sdiv 100000"
  using assms
  by (auto simp: swap_defs split: all_splits)

lemma swap_call_unique:
  assumes "EvCall qa d \<in> set (snd (swap viem wp params))"
    and "EvCall qa' d' \<in> set (snd (swap viem wp params))"
  shows "qa' = qa \<and> d' = d"
  using swap_call_D [OF assms(1)] swap_call_D [OF assms(2)] by auto

lemma swap_stub_no_quoter:
  "swap stubViem noQuoterProvider okParams = (Inl TypeError, [EvGetAddresses])"
  by (simp add: swap_defs stub_defs)

subsection \<open>The arithmetic of the minimum output\<close>

lemma minOut_bounds:
  fixes q k :: int
  assumes "0 \<le> q" "0 \<le> k" "k \<le> 10000"
  shows "(q * k) sdiv 100000 = (q * k) div 100000"
    and "0 \<le> q - (q * k) div 100000"
    and "q - (q * k) div 100000 \<le> q"
proof -
  have nn: "0 \<le> q * k" using assms by simp
  then show "(q * k) sdiv 100000 = (q * k) div 100000" by (simp add: sdiv_nonneg)
  have "q * k \<le> q * 10000" using assms by (simp add: mult_left_mono)
  then have "(q * k) div 100000 \<le> (q * 10000) div 100000" by (rule zdiv_mono1) simp
  also have "\<dots> \<le> q" using assms(1) by simp
  finally show "0 \<le> q - (q * k) div 100000" by simp
  from nn have "0 \<le> (q * k) div 100000" by (simp add: pos_imp_zdiv_nonneg_iff)
  then show "q - (q * k) div 100000 \<le> q" by simp
qed

lemma slippageBP_in_range:
  assumes "slippage params = Some (Finite s)" "0 \<le> s" "s \<le> 1"
    and "BigInt (numberMul (toNumber (slippage params)) (Finite 10000)) = Inr k"
  shows "k = round (s * 10000) \<and> numberMul (Finite s) (Finite 10000) = Finite (of_int k) \<and>
         0 \<le> k \<and> k \<le> 10000"
proof -
  from assms(1,4) have eq: "numberMul (Finite s) (Finite 10000) = Finite (of_int k)"
    by (simp add: toNumber_def BigInt_Inr_iff)
  from numberMul_bounds [OF assms(2,3) eq] have b: "0 \<le> k" "k \<le> 10000"
    by simp_all
  have "0 \<le> s * 10000" "s * 10000 \<le> 10000" using assms(2,3) by simp_all
  moreover have "roundDouble (s * 10000) = Finite (of_int k)" using eq by simp
  ultimately have "\<bar>of_int k - s * 10000\<bar> \<le> 1 / 2 ^ 40"
    by (rule roundDouble_near_10000)
  then have "round (s * 10000) = k" by (rule round_near_int)
  with eq b show ?thesis by simp
qed

lemma double_1_32: "roundDouble (1 / 32) = Finite (1 / 32)"
  by code_simp

section \<open>The quote\<close>

text \<open>
  C6. \<^verbatim>\<open>getQuote\<close> makes no request other than one read-only call to the quoter address,
  whose data is the encoding of \<^verbatim>\<open>quoteExactInputSingle\<close> applied to the struct (tokenIn,
  tokenOut, amountIn, fee, sqrtPriceLimitX96 = 0); when it returns a quote, that call was
  made exactly once and the quote holds the four decoded outputs in their order: amountOut,
  sqrtPriceX96After, initializedTicksCrossed, gasEstimate.
\<close>

theorem getQuote_read_only_call:
  assumes "getQuote viem client qa tokenIn tokenOut a fee = (r, evs)"
  shows "(\<forall>ev \<in> set evs. \<exists>d. ev = EvCall qa d \<and>
            encodeFunctionData viem quoterAbi ''quoteExactInputSingle''
              [JObject [(''tokenIn'', JString tokenIn), (''tokenOut'', JString tokenOut),
                        (''amountIn'', JBigInt a), (''fee'', JNumber fee),
                        (''sqrtPriceLimitX96'', JBigInt 0)]] = Inr d) \<and>
         (\<forall>quote. r = Inr quote \<longrightarrow>
            (\<exists>d resp result. evs = [EvCall qa d] \<and> call client qa d = Inr resp \<and>
               decodeFunctionResult viem quoterAbi ''quoteExactInputSingle'' resp = Inr result \<and>
               quote = \<lparr>amountOut = index result 0, sqrtPriceX96After = index result 1,
                        initializedTicksCrossed = index result 2,
                        gasEstimate = index result 3\<rparr>))"
  using assms
  by (auto simp: getQuote_def quoteArgs_def promise_defs split: all_splits)

theorem getQuote_read_only_call_witness:
  "getQuote stubViem (stubPublicClient (JString ''success'')) ''0xQ'' ''0xT1'' ''0xT2''
     1000000000000000000 (Finite 3000) =
   (Inr \<lparr>amountOut = JBigInt 1000000, sqrtPriceX96After = JBigInt 0,
          initializedTicksCrossed = JNumber (Finite 1), gasEstimate = JBigInt 100000\<rparr>,
    [EvCall ''0xQ'' ''0xc6a5026a'']) \<and>
   (\<exists>d resp result.
      [EvCall ''0xQ'' ''0xc6a5026a''] = [EvCall ''0xQ'' d] \<and>
      call (stubPublicClient (JString ''success'')) ''0xQ'' d = Inr resp \<and>
      decodeFunctionResult stubViem quoterAbi ''quoteExactInputSingle'' resp = Inr result \<and>
      index result 0 = JBigInt 1000000)"
proof -
  note run = getQuote_stub [of "JString ''success''"]
  from getQuote_read_only_call [OF run]
  have "\<exists>d resp result.
      [EvCall ''0xQ'' ''0xc6a5026a''] = [EvCall ''0xQ'' d] \<and>
      call (stubPublicClient (JString ''success'')) ''0xQ'' d = Inr resp \<and>
      decodeFunctionResult stubViem quoterAbi ''quoteExactInputSingle'' resp = Inr result \<and>
      \<lparr>amountOut = JBigInt 1000000, sqrtPriceX96After = JBigInt 0,
        initializedTicksCrossed = JNumber (Finite 1), gasEstimate = JBigInt 100000\<rparr> =
      \<lparr>amountOut = index result 0, sqrtPriceX96After = index result 1,
        initializedTicksCrossed = index result 2, gasEstimate = index result 3\<rparr>"
    by blast
  then have "\<exists>d resp result.
      [EvCall ''0xQ'' ''0xc6a5026a''] = [EvCall ''0xQ'' d] \<and>
      call (stubPublicClient (JString ''success'')) ''0xQ'' d = Inr resp \<and>
      decodeFunctionResult stubViem quoterAbi ''quoteExactInputSingle'' resp = Inr result \<and>
      index result 0 = JBigInt 1000000"
    by auto
  with run show ?thesis by blast
qed

text \<open>
  C4. When the quoter call of a swap fails, or its response cannot be decoded, \<^verbatim>\<open>swap\<close>
  fails with that very error and the run ends there: the events are the address lookup and
  the quoter call, so no transaction is submitted.
\<close>

theorem swap_quote_failure_aborts:
  assumes "EvCall qa d \<in> set (snd (swap viem wp params))"
    and "getPublicClient wp (chain params) = Inr pc"
    and "call pc qa d = Inl e \<or>
         (\<exists>resp. call pc qa d = Inr resp \<and>
            decodeFunctionResult viem quoterAbi ''quoteExactInputSingle'' resp = Inl e)"
  shows "swap viem wp params = (Inl e, [EvGetAddresses, EvCall qa d])"
  using assms
  by (auto simp: swap_defs split: all_splits)

theorem swap_quote_failure_aborts_witness:
  "EvCall ''0xQ'' ''0xc6a5026a''
     \<in> set (snd (swap stubViem noQuoteProvider (stubParams (Some (Finite double_0_01))))) \<and>
   getPublicClient noQuoteProvider (chain (stubParams (Some (Finite double_0_01))))
     = Inr revertingPublicClient \<and>
   call revertingPublicClient ''0xQ'' ''0xc6a5026a'' = Inl (Rejected ''CallExecutionError'') \<and>
   swap stubViem noQuoteProvider (stubParams (Some (Finite double_0_01))) =
     (Inl (Rejected ''CallExecutionError''), [EvGetAddresses, EvCall ''0xQ'' ''0xc6a5026a''])"
proof -
  have h1: "EvCall ''0xQ'' ''0xc6a5026a''
     \<in> set (snd (swap stubViem noQuoteProvider (stubParams (Some (Finite double_0_01)))))"
    by (simp add: swap_stub_quote_reverts)
  have h2: "getPublicClient noQuoteProvider (chain (stubParams (Some (Finite double_0_01))))
     = Inr revertingPublicClient"
    by (simp add: stubProvider_def)
  have h3: "call revertingPublicClient ''0xQ'' ''0xc6a5026a''
     = Inl (Rejected ''CallExecutionError'')"
    by (simp add: revertingPublicClient_def)
  from h3 have h3': "call revertingPublicClient ''0xQ'' ''0xc6a5026a''
        = Inl (Rejected ''CallExecutionError'') \<or>
      (\<exists>resp. call revertingPublicClient ''0xQ'' ''0xc6a5026a'' = Inr resp \<and>
         decodeFunctionResult stubViem quoterAbi ''quoteExactInputSingle'' resp
           = Inl (Rejected ''CallExecutionError''))"
    by simp
  from swap_quote_failure_aborts [OF h1 h2 h3'] h1 h2 h3 show ?thesis by blast
qed

section \<open>The router call\<close>

text \<open>
  C5. The data of every transaction that \<^verbatim>\<open>swap\<close> submits is the encoding of one call of
  \<^verbatim>\<open>execute\<close> with two arguments: the commands \<^verbatim>\<open>0x00\<close> (one byte, the exact-input swap)
  and a one-element array of inputs. That element is the ABI encoding, under the parameter
  types (address recipient, uint256 amountIn, uint256 amountOutMin, bytes path, bool
  payerIsUser), of a recipient, two integers, the path and \<^verbatim>\<open>true\<close>; the path is the packed
  encoding of (address tokenIn, uint24 fee = 3000, address tokenOut).
\<close>

theorem swap_router_call_encoding:
  assumes "EvSendTransaction c acct to' dat \<in> set (snd (swap viem wp params))"
  shows "\<exists>path inputs amt m.
           encodePacked viem [''address'', ''uint24'', ''address'']
             [JString (SwapParams.fromToken params), JNumber (Finite 3000),
              JString (SwapParams.toToken params)] = Inr path \<and>
           encodeAbiParameters viem
             [JObject [(''type'', JString ''address''), (''name'', JString ''recipient'')],
              JObject [(''type'', JString ''uint256''), (''name'', JString ''amountIn'')],
              JObject [(''type'', JString ''uint256''), (''name'', JString ''amountOutMin'')],
              JObject [(''type'', JString ''bytes''), (''name'', JString ''path'')],
              JObject [(''type'', JString ''bool''), (''name'', JString ''payerIsUser'')]]
             [acct, JBigInt amt, JBigInt m, JString path, JBool True] = Inr inputs \<and>
           encodeFunctionData viem executeAbi ''execute''
             [JString ''0x00'', JArray [JString inputs]] = Inr dat"
  using assms
  by (auto simp: swap_defs swapInputParams_def split: all_splits)

theorem swap_router_call_encoding_witness:
  "EvSendTransaction (stubChain (Some stubContracts)) (JString ''0xA'') ''0xR'' ''0x24856bc3''
     \<in> set (snd (swap stubViem okProvider (stubParams (Some (Finite double_0_01))))) \<and>
   (\<exists>path inputs.
      encodePacked stubViem [''address'', ''uint24'', ''address'']
        [JString ''0xT1'', JNumber (Finite 3000), JString ''0xT2''] = Inr path \<and>
      encodeFunctionData stubViem executeAbi ''execute''
        [JString ''0x00'', JArray [JString inputs]] = Inr ''0x24856bc3'')"
proof -
  have h: "EvSendTransaction (stubChain (Some stubContracts)) (JString ''0xA'') ''0xR''
       ''0x24856bc3''
     \<in> set (snd (swap stubViem okProvider (stubParams (Some (Finite double_0_01)))))"
    by (simp add: swap_stub_0_01)
  from swap_router_call_encoding [OF h]
  have "\<exists>path inputs.
      encodePacked stubViem [''address'', ''uint24'', ''address'']
        [JString ''0xT1'', JNumber (Finite 3000), JString ''0xT2''] = Inr path \<and>
      encodeFunctionData stubViem executeAbi ''execute''
        [JString ''0x00'', JArray [JString inputs]] = Inr ''0x24856bc3''"
    by (auto simp: stubParams_def)
  with h show ?thesis by blast
qed

section \<open>The receipt\<close>

text \<open>
  C3. When a swap has submitted its transaction and the receipt it waits for is absent, or
  has the status \<^verbatim>\<open>"reverted"\<close>, \<^verbatim>\<open>swap\<close> throws (the error of the code for a failed
  execution is \<^verbatim>\<open>Error("Transaction failed")\<close>) and so returns no SwapTransaction.
\<close>

theorem swap_failed_receipt_throws:
  assumes "EvWaitForTransactionReceipt h \<in> set (snd (swap viem wp params))"
    and "getPublicClient wp (chain params) = Inr pc"
    and "waitForTransactionReceipt pc h = Inr receipt"
    and "receipt = None \<or> (\<exists>r. receipt = Some r \<and> status r = JString ''reverted'')"
  shows "fst (swap viem wp params) = Inl (Error ''Transaction failed'')"
  using assms
  by (auto simp: swap_defs receiptFailed_def split: all_splits)

theorem swap_failed_receipt_throws_witness:
  "EvWaitForTransactionReceipt ''0xH''
     \<in> set (snd (swap stubViem revertedProvider (stubParams (Some (Finite double_0_01))))) \<and>
   getPublicClient revertedProvider (chain (stubParams (Some (Finite double_0_01))))
     = Inr (stubPublicClient (JString ''reverted'')) \<and>
   waitForTransactionReceipt (stubPublicClient (JString ''reverted'')) ''0xH''
     = Inr (Some \<lparr>status = JString ''reverted''\<rparr>) \<and>
   fst (swap stubViem revertedProvider (stubParams (Some (Finite double_0_01))))
     = Inl (Error ''Transaction failed'')"
proof -
  have h1: "EvWaitForTransactionReceipt ''0xH''
     \<in> set (snd (swap stubViem revertedProvider (stubParams (Some (Finite double_0_01)))))"
    by (simp add: swap_stub_reverted)
  have h2: "getPublicClient revertedProvider (chain (stubParams (Some (Finite double_0_01))))
     = Inr (stubPublicClient (JString ''reverted''))"
    by (simp add: stubProvider_def)
  have h3: "waitForTransactionReceipt (stubPublicClient (JString ''reverted'')) ''0xH''
     = Inr (Some \<lparr>status = JString ''reverted''\<rparr>)"
    by (simp add: stubPublicClient_def)
  have h4: "Some \<lparr>status = JString ''reverted''\<rparr> = None \<or>
      (\<exists>r. Some \<lparr>status = JString ''reverted''\<rparr> = Some r \<and> status r = JString ''reverted'')"
    by simp
  from swap_failed_receipt_throws [OF h1 h2 h3 h4] h1 h2 h3 show ?thesis by blast
qed

section \<open>Missing contract addresses\<close>

text \<open>
  C7, as the code has it. \<^verbatim>\<open>swap\<close> does not check the chain description, and no error
  of its own is raised for a missing address. On a chain whose description lacks the
  quoter or the router address it fails and submits nothing: its events are at most the
  address lookup and the quoter call. When the quoter address is missing, the quoter is
  not called either, and once the address lookup has been answered the failure is the
  TypeError of reading \<^verbatim>\<open>.address\<close> of \<^verbatim>\<open>undefined\<close>. When only the router address is
  missing and every step up to the decoding of the quote succeeds, the quoter has been
  called before the swap fails: with that TypeError, or with the RangeError of \<^verbatim>\<open>BigInt\<close>
  when the slippage times 10000 is not an integer.
\<close>

theorem swap_missing_contract:
  assumes "getChainConfigs wp (chain params) = Inr ch"
    and "contracts ch = None \<or>
         (\<exists>cs. contracts ch = Some cs \<and>
            (uniswapV3Quoter cs = None \<or> universalRouter cs = None))"
  shows "(\<exists>e. fst (swap viem wp params) = Inl e) \<and>
         (snd (swap viem wp params) = [] \<or> snd (swap viem wp params) = [EvGetAddresses] \<or>
          (\<exists>qa d. snd (swap viem wp params) = [EvGetAddresses, EvCall qa d])) \<and>
         ((contracts ch = None \<or> (\<exists>cs. contracts ch = Some cs \<and> uniswapV3Quoter cs = None)) \<longrightarrow>
            (snd (swap viem wp params) = [] \<or> snd (swap viem wp params) = [EvGetAddresses]) \<and>
            (\<forall>wc addrs. getWalletClient wp (chain params) = Inr wc \<and>
                 getAddresses wc 0 = Inr addrs \<and> snd (swap viem wp params) \<noteq> [] \<longrightarrow>
               fst (swap viem wp params) = Inl TypeError)) \<and>
         (\<forall>cs qc pc wc addrs a d resp result.
            contracts ch = Some cs \<and> uniswapV3Quoter cs = Some qc \<and>
            universalRouter cs = None \<and>
            switchChain wp (chain params) = Inr () \<and>
            getPublicClient wp (chain params) = Inr pc \<and>
            getWalletClient wp (chain params) = Inr wc \<and>
            getAddresses wc 0 = Inr addrs \<and>
            parseEther viem (amount params) = Inr a \<and>
            encodeFunctionData viem quoterAbi ''quoteExactInputSingle''
              [JObject [(''tokenIn'', JString (SwapParams.fromToken params)),
                        (''tokenOut'', JString (SwapParams.toToken params)),
                        (''amountIn'', JBigInt a), (''fee'', JNumber (Finite 3000)),
                        (''sqrtPriceLimitX96'', JBigInt 0)]] = Inr d \<and>
            call pc (address qc) d = Inr resp \<and>
            decodeFunctionResult viem quoterAbi ''quoteExactInputSingle'' resp = Inr result \<longrightarrow>
            swap viem wp params =
              (Inl (case BigInt (numberMul (toNumber (slippage params)) (Finite 10000)) of
                      Inl e \<Rightarrow> RangeError
                    | Inr k \<Rightarrow> TypeError),
               [EvGetAddresses, EvCall (address qc) d]))"
proof (intro conjI)
  show "\<exists>e. fst (swap viem wp params) = Inl e"
    using assms by (auto simp: swap_defs split: all_splits)
  show "snd (swap viem wp params) = [] \<or> snd (swap viem wp params) = [EvGetAddresses] \<or>
          (\<exists>qa d. snd (swap viem wp params) = [EvGetAddresses, EvCall qa d])"
    using assms by (auto simp: swap_defs split: all_splits)
  show "(contracts ch = None \<or> (\<exists>cs. contracts ch = Some cs \<and> uniswapV3Quoter cs = None)) \<longrightarrow>
            (snd (swap viem wp params) = [] \<or> snd (swap viem wp params) = [EvGetAddresses]) \<and>
            (\<forall>wc addrs. getWalletClient wp (chain params) = Inr wc \<and>
                 getAddresses wc 0 = Inr addrs \<and> snd (swap viem wp params) \<noteq> [] \<longrightarrow>
               fst (swap viem wp params) = Inl TypeError)"
    using assms by (auto simp: swap_defs split: all_splits)
  show "\<forall>cs qc pc wc addrs a d resp result.
            contracts ch = Some cs \<and> uniswapV3Quoter cs = Some qc \<and>
            universalRouter cs = None \<and>
            switchChain wp (chain params) = Inr () \<and>
            getPublicClient wp (chain params) = Inr pc \<and>
            getWalletClient wp (chain params) = Inr wc \<and>
            getAddresses wc 0 = Inr addrs \<and>
            parseEther viem (amount params) = Inr a \<and>
            encodeFunctionData viem quoterAbi ''quoteExactInputSingle''
              [JObject [(''tokenIn'', JString (SwapParams.fromToken params)),
                        (''tokenOut'', JString (SwapParams.toToken params)),
                        (''amountIn'', JBigInt a), (''fee'', JNumber (Finite 3000)),
                        (''sqrtPriceLimitX96'', JBigInt 0)]] = Inr d \<and>
            call pc (address qc) d = Inr resp \<and>
            decodeFunctionResult viem quoterAbi ''quoteExactInputSingle'' resp = Inr result \<longrightarrow>
            swap viem wp params =
              (Inl (case BigInt (numberMul (toNumber (slippage params)) (Finite 10000)) of
                      Inl e \<Rightarrow> RangeError
                    | Inr k \<Rightarrow> TypeError),
               [EvGetAddresses, EvCall (address qc) d])"
  proof (intro allI impI, elim conjE)
    fix cs qc pc wc addrs a d resp result
    assume h: "contracts ch = Some cs" "uniswapV3Quoter cs = Some qc"
      "universalRouter cs = None"
      "switchChain wp (chain params) = Inr ()"
      "getPublicClient wp (chain params) = Inr pc"
      "getWalletClient wp (chain params) = Inr wc"
      "getAddresses wc 0 = Inr addrs"
      "parseEther viem (amount params) = Inr a"
      "encodeFunctionData viem quoterAbi ''quoteExactInputSingle''
              [JObject [(''tokenIn'', JString (SwapParams.fromToken params)),
                        (''tokenOut'', JString (SwapParams.toToken params)),
                        (''amountIn'', JBigInt a), (''fee'', JNumber (Finite 3000)),
                        (''sqrtPriceLimitX96'', JBigInt 0)]] = Inr d"
      "call pc (address qc) d = Inr resp"
      "decodeFunctionResult viem quoterAbi ''quoteExactInputSingle'' resp = Inr result"
    show "swap viem wp params =
              (Inl (case BigInt (numberMul (toNumber (slippage params)) (Finite 10000)) of
                      Inl e \<Rightarrow> RangeError
                    | Inr k \<Rightarrow> TypeError),
               [EvGetAddresses, EvCall (address qc) d])"
    proof (cases "BigInt (numberMul (toNumber (slippage params)) (Finite 10000))")
      case (Inl e)
      then have "e = RangeError" by (rule BigInt_Inl)
      with Inl assms(1) h show ?thesis
        by (simp add: swap_defs quoteArgs_def)
    next
      case (Inr k)
      with assms(1) h show ?thesis
        by (simp add: swap_defs quoteArgs_def split: js_value.splits)
    qed
  qed
qed

theorem swap_missing_contract_witness:
  "getChainConfigs noQuoterProvider (chain okParams)
     = Inr (stubChain (Some (stubContracts\<lparr>uniswapV3Quoter := None\<rparr>))) \<and>
   uniswapV3Quoter (stubContracts\<lparr>uniswapV3Quoter := None\<rparr>) = None \<and>
   getWalletClient noQuoterProvider (chain okParams) = Inr stubWalletClient \<and>
   getAddresses stubWalletClient 0 = Inr [''0xA''] \<and>
   snd (swap stubViem noQuoterProvider okParams) = [EvGetAddresses] \<and>
   fst (swap stubViem noQuoterProvider okParams) = Inl TypeError \<and>
   getChainConfigs noRouterProvider (chain okParams)
     = Inr (stubChain (Some (stubContracts\<lparr>universalRouter := None\<rparr>))) \<and>
   uniswapV3Quoter (stubContracts\<lparr>universalRouter := None\<rparr>) = Some \<lparr>address = ''0xQ''\<rparr> \<and>
   universalRouter (stubContracts\<lparr>universalRouter := None\<rparr>) = None \<and>
   BigInt (numberMul (toNumber (slippage okParams)) (Finite 10000)) = Inr 100 \<and>
   swap stubViem noRouterProvider okParams =
     (Inl TypeError, [EvGetAddresses, EvCall ''0xQ'' ''0xc6a5026a''])"
proof -
  let ?ch = "stubChain (Some (stubContracts\<lparr>uniswapV3Quoter := None\<rparr>))"
  have h1: "getChainConfigs noQuoterProvider (chain okParams) = Inr ?ch"
    by (simp add: stubProvider_def)
  have q: "uniswapV3Quoter (stubContracts\<lparr>uniswapV3Quoter := None\<rparr>) = None"
    by simp
  have c: "contracts ?ch = Some (stubContracts\<lparr>uniswapV3Quoter := None\<rparr>)"
    by (simp add: stubChain_def)
  from c q have h2: "contracts ?ch = None \<or>
      (\<exists>cs. contracts ?ch = Some cs \<and> (uniswapV3Quoter cs = None \<or> universalRouter cs = None))"
    by blast
  from c q have h3: "contracts ?ch = None \<or>
      (\<exists>cs. contracts ?ch = Some cs \<and> uniswapV3Quoter cs = None)"
    by blast
  have w: "getWalletClient noQuoterProvider (chain okParams) = Inr stubWalletClient"
    by (simp add: stubProvider_def)
  have a: "getAddresses stubWalletClient 0 = Inr [''0xA'']"
    by (simp add: stubWalletClient_def)
  have t: "snd (swap stubViem noQuoterProvider okParams) = [EvGetAddresses]"
    by (simp add: swap_stub_no_quoter)
  then have ne: "snd (swap stubViem noQuoterProvider okParams) \<noteq> []" by simp
  from swap_missing_contract [OF h1 h2, of stubViem] h3 w a ne
  have r1: "fst (swap stubViem noQuoterProvider okParams) = Inl TypeError" by blast

  let ?cs' = "stubContracts\<lparr>universalRouter := None\<rparr>"
  let ?ch' = "stubChain (Some ?cs')"
  let ?pc = "stubPublicClient (JString ''success'')"
  let ?result = "[JBigInt 1000000, JBigInt 0, JNumber (Finite 1), JBigInt 100000]"
  have g1: "getChainConfigs noRouterProvider (chain okParams) = Inr ?ch'"
    by (simp add: stubProvider_def)
  have c': "contracts ?ch' = Some ?cs'" by (simp add: stubChain_def)
  have qq: "uniswapV3Quoter ?cs' = Some \<lparr>address = ''0xQ''\<rparr>"
    and rr: "universalRouter ?cs' = None"
    by (simp_all add: stubContracts_def)
  from c' rr have g2: "contracts ?ch' = None \<or>
      (\<exists>cs. contracts ?ch' = Some cs \<and> (uniswapV3Quoter cs = None \<or> universalRouter cs = None))"
    by blast
  have p: "switchChain noRouterProvider (chain okParams) = Inr ()"
      "getPublicClient noRouterProvider (chain okParams) = Inr ?pc"
      "getWalletClient noRouterProvider (chain okParams) = Inr stubWalletClient"
    by (simp_all add: stubProvider_def)
  have e: "parseEther stubViem (amount okParams) = Inr 1000000000000000000"
    by (simp add: stubViem_def stubParams_def)
  have d: "encodeFunctionData stubViem quoterAbi ''quoteExactInputSingle''
      [JObject [(''tokenIn'', JString (SwapParams.fromToken okParams)),
                (''tokenOut'', JString (SwapParams.toToken okParams)),
                (''amountIn'', JBigInt 1000000000000000000), (''fee'', JNumber (Finite 3000)),
                (''sqrtPriceLimitX96'', JBigInt 0)]] = Inr ''0xc6a5026a''"
    by (simp add: stubViem_def)
  have cl: "call ?pc (address \<lparr>address = ''0xQ''\<rparr>) ''0xc6a5026a'' = Inr (Some ''0x03'')"
    by (simp add: stubPublicClient_def)
  have de: "decodeFunctionResult stubViem quoterAbi ''quoteExactInputSingle'' (Some ''0x03'')
      = Inr ?result"
    by (simp add: stubViem_def)
  have bp: "BigInt (numberMul (toNumber (slippage okParams)) (Finite 10000)) = Inr 100"
    using slippageBP_0_01 by (simp add: stubParams_def)
  from swap_missing_contract [OF g1 g2, of stubViem] c' qq rr p a e d cl de
  have "swap stubViem noRouterProvider okParams =
      (Inl (case BigInt (numberMul (toNumber (slippage okParams)) (Finite 10000)) of
              Inl e \<Rightarrow> RangeError
            | Inr k \<Rightarrow> TypeError),
       [EvGetAddresses, EvCall (address \<lparr>address = ''0xQ''\<rparr>) ''0xc6a5026a''])"
    by blast
  with bp have r2: "swap stubViem noRouterProvider okParams =
      (Inl TypeError, [EvGetAddresses, EvCall ''0xQ'' ''0xc6a5026a''])"
    by simp
  from h1 q w a t r1 g1 qq rr bp r2 show ?thesis by blast
qed

text \<open>
  The claim as stated fails where only the router address is missing: the quoter has been
  called when the swap fails, and the failure is a TypeError.
\<close>

theorem swap_missing_router_counterexample:
  "getChainConfigs noRouterProvider (chain okParams)
     = Inr (stubChain (Some (stubContracts\<lparr>universalRouter := None\<rparr>))) \<and>
   universalRouter (stubContracts\<lparr>universalRouter := None\<rparr>) = None \<and>
   swap stubViem noRouterProvider okParams =
     (Inl TypeError, [EvGetAddresses, EvCall ''0xQ'' ''0xc6a5026a''])"
  by (simp add: swap_stub_no_router) (simp add: stubProvider_def)

section \<open>Where the minimum output comes from\<close>

text \<open>
  C8. The parameters of a swap have no field for a minimum output, and the minimum output
  of a run is a fixed function of two values only: the amount \<open>q\<close> decoded from the
  response of the quoter call made in this very run, and the caller's slippage, as
  \<open>k = BigInt(slippage * 10000)\<close>. It is \<open>q - (q * k) / 100000\<close> in BigInt arithmetic,
  both in the returned SwapTransaction and in the input encoded for the router.
\<close>

theorem swap_minAmountOut_derived:
  "(\<forall>tx. fst (swap viem wp params) = Inr tx \<longrightarrow>
      (\<exists>pc qa d resp result q k.
         getPublicClient wp (chain params) = Inr pc \<and>
         EvCall qa d \<in> set (snd (swap viem wp params)) \<and> call pc qa d = Inr resp \<and>
         decodeFunctionResult viem quoterAbi ''quoteExactInputSingle'' resp = Inr result \<and>
         index result 0 = JBigInt q \<and>
         BigInt (numberMul (toNumber (slippage params)) (Finite 10000)) = Inr k \<and>
         minAmountOut tx = q - (q * k) sdiv 100000)) \<and>
   (\<forall>c acct to' dat. EvSendTransaction c acct to' dat \<in> set (snd (swap viem wp params)) \<longrightarrow>
      (\<exists>pc qa d resp result q k a.
         getPublicClient wp (chain params) = Inr pc \<and>
         EvCall qa d \<in> set (snd (swap viem wp params)) \<and> call pc qa d = Inr resp \<and>
         decodeFunctionResult viem quoterAbi ''quoteExactInputSingle'' resp = Inr result \<and>
         index result 0 = JBigInt q \<and>
         BigInt (numberMul (toNumber (slippage params)) (Finite 10000)) = Inr k \<and>
         executeCallData viem (SwapParams.fromToken params) (SwapParams.toToken params)
           acct a (q - (q * k) sdiv 100000) = Inr dat))"
proof (intro conjI allI impI)
  fix tx assume "fst (swap viem wp params) = Inr tx"
  from swap_Inr_quote_D [OF this]
  show "\<exists>pc qa d resp result q k.
         getPublicClient wp (chain params) = Inr pc \<and>
         EvCall qa d \<in> set (snd (swap viem wp params)) \<and> call pc qa d = Inr resp \<and>
         decodeFunctionResult viem quoterAbi ''quoteExactInputSingle'' resp = Inr result \<and>
         index result 0 = JBigInt q \<and>
         BigInt (numberMul (toNumber (slippage params)) (Finite 10000)) = Inr k \<and>
         minAmountOut tx = q - (q * k) sdiv 100000" .
next
  fix c acct to' dat
  assume "EvSendTransaction c acct to' dat \<in> set (snd (swap viem wp params))"
  from swap_send_D [OF this]
  show "\<exists>pc qa d resp result q k a.
         getPublicClient wp (chain params) = Inr pc \<and>
         EvCall qa d \<in> set (snd (swap viem wp params)) \<and> call pc qa d = Inr resp \<and>
         decodeFunctionResult viem quoterAbi ''quoteExactInputSingle'' resp = Inr result \<and>
         index result 0 = JBigInt q \<and>
         BigInt (numberMul (toNumber (slippage params)) (Finite 10000)) = Inr k \<and>
         executeCallData viem (SwapParams.fromToken params) (SwapParams.toToken params)
           acct a (q - (q * k) sdiv 100000) = Inr dat"
    unfolding reachedSend_def by blast
qed

theorem swap_minAmountOut_derived_witness:
  "fst (swap stubViem okProvider okParams) = Inr okTx \<and>
   (\<exists>pc qa d resp result q k.
      getPublicClient okProvider (chain okParams) = Inr pc \<and>
      EvCall qa d \<in> set (snd (swap stubViem okProvider okParams)) \<and>
      call pc qa d = Inr resp \<and>
      decodeFunctionResult stubViem quoterAbi ''quoteExactInputSingle'' resp = Inr result \<and>
      index result 0 = JBigInt q \<and>
      BigInt (numberMul (toNumber (slippage okParams)) (Finite 10000)) = Inr k \<and>
      minAmountOut okTx = q - (q * k) sdiv 100000)"
proof -
  have run: "fst (swap stubViem okProvider okParams) = Inr okTx"
    by (simp add: swap_stub_0_01)
  from swap_minAmountOut_derived [of stubViem okProvider okParams] run
  show ?thesis by blast
qed

section \<open>The input amount\<close>



section \<open>The recipient\<close>




section \<open>The slippage\<close>

text \<open>
  C1. For a slippage \<open>s\<close> in \<open>[0, 1]\<close> and a quoted amount \<open>q \<ge> 0\<close> the minimum output is
  to be \<open>q - \<lfloor>q * round (s * 10000) / 100000\<rfloor>\<close>. The code computes the basis points as
  \<^verbatim>\<open>BigInt(params.slippage * 10_000)\<close> and rounds nowhere, and \<^verbatim>\<open>BigInt\<close> throws for a
  number that is not an integer. So at the slippage \<open>1/32 = 0.03125\<close> (a binary64 value,
  its product with \<open>10000\<close> is exactly \<open>312.5\<close>) and at the literal \<^verbatim>\<open>0.07\<close> (the product
  in binary64 is \<open>700.0000000000001\<close>) the swap throws a RangeError once the quote of
  \<open>1000000\<close> is there: no minimum output is computed, none reaches the router, nothing is
  returned.
\<close>

theorem swap_slippage_non_integer_throws:
  "(0::rat) \<le> 1 / 32 \<and> (1 / 32 :: rat) \<le> 1 \<and> roundDouble (1 / 32) = Finite (1 / 32) \<and>
   numberMul (Finite (1 / 32)) (Finite 10000) = Finite (625 / 2) \<and>
   swap stubViem okProvider (stubParams (Some (Finite (1 / 32)))) =
     (Inl RangeError, [EvGetAddresses, EvCall ''0xQ'' ''0xc6a5026a'']) \<and>
   0 \<le> double_0_07 \<and> double_0_07 \<le> 1 \<and> roundDouble (7 / 100) = Finite double_0_07 \<and>
   numberMul (Finite double_0_07) (Finite 10000)
     = Finite (6157265115545601 / 8796093022208) \<and>
   swap stubViem okProvider (stubParams (Some (Finite double_0_07))) =
     (Inl RangeError, [EvGetAddresses, EvCall ''0xQ'' ''0xc6a5026a''])"
proof -
  have "numberMul (Finite (1 / 32)) (Finite 10000) = Finite (625 / 2)"
    by code_simp
  moreover have "numberMul (Finite double_0_07) (Finite 10000)
      = Finite (6157265115545601 / 8796093022208)"
    unfolding double_0_07_def by code_simp
  moreover have "0 \<le> double_0_07" "double_0_07 \<le> 1"
    by (simp_all add: double_0_07_def)
  ultimately show ?thesis
    using double_1_32 double_0_07 swap_stub_1_32 swap_stub_0_07 by simp
qed

text \<open>
  Where the product is an integer the code computes what C1 says. In a run that gets as
  far as the router call the product is the integer \<open>round (s * 10000)\<close> and the minimum
  output, encoded for the router and returned, is \<open>q - \<lfloor>q * round (s * 10000) / 100000\<rfloor>\<close>,
  between \<open>0\<close> and \<open>q\<close>, and \<open>q\<close> for \<open>s = 0\<close>.
\<close>

lemma swap_minAmountOut_where_reached:
  assumes s: "slippage params = Some (Finite s)" "0 \<le> s" "s \<le> 1"
    and pc: "getPublicClient wp (chain params) = Inr pc"
    and ev: "EvCall qa d \<in> set (snd (swap viem wp params))"
    and resp: "call pc qa d = Inr resp"
    and dec: "decodeFunctionResult viem quoterAbi ''quoteExactInputSingle'' resp = Inr result"
    and q: "index result 0 = JBigInt q" "0 \<le> q"
  shows "(\<forall>tx. fst (swap viem wp params) = Inr tx \<longrightarrow>
           numberMul (Finite s) (Finite 10000) = Finite (of_int (round (s * 10000))) \<and>
           minAmountOut tx = q - (q * round (s * 10000)) div 100000 \<and>
           0 \<le> minAmountOut tx \<and> minAmountOut tx \<le> q \<and>
           (s = 0 \<longrightarrow> minAmountOut tx = q)) \<and>
         (\<forall>c acct to' dat.
            EvSendTransaction c acct to' dat \<in> set (snd (swap viem wp params)) \<longrightarrow>
           numberMul (Finite s) (Finite 10000) = Finite (of_int (round (s * 10000))) \<and>
           0 \<le> q - (q * round (s * 10000)) div 100000 \<and>
           q - (q * round (s * 10000)) div 100000 \<le> q \<and>
           (\<exists>a. executeCallData viem (SwapParams.fromToken params) (SwapParams.toToken params)
                  acct a (q - (q * round (s * 10000)) div 100000) = Inr dat))"
proof (intro conjI allI impI)
  fix tx assume "fst (swap viem wp params) = Inr tx"
  from swap_Inr_quote_D [OF this] obtain pc' qa' d' resp' result' q' k where
    f: "getPublicClient wp (chain params) = Inr pc'"
       "EvCall qa' d' \<in> set (snd (swap viem wp params))" "call pc' qa' d' = Inr resp'"
       "decodeFunctionResult viem quoterAbi ''quoteExactInputSingle'' resp' = Inr result'"
       "index result' 0 = JBigInt q'"
       "BigInt (numberMul (toNumber (slippage params)) (Finite 10000)) = Inr k"
       "minAmountOut tx = q' - (q' * k) sdiv 100000"
    by blast
  from swap_call_unique [OF ev f(2)] pc f resp dec q have qq: "q' = q" by simp
  from slippageBP_in_range [OF s f(6)] have
    k: "k = round (s * 10000)" "numberMul (Finite s) (Finite 10000) = Finite (of_int k)"
       "0 \<le> k" "k \<le> 10000"
    by simp_all
  note b = minOut_bounds [OF q(2) k(3,4)]
  from k(1,2) show "numberMul (Finite s) (Finite 10000) = Finite (of_int (round (s * 10000)))"
    by simp
  from b(1) f(7) qq k(1) show m: "minAmountOut tx = q - (q * round (s * 10000)) div 100000"
    by simp
  from b(2) m k(1) show "0 \<le> minAmountOut tx" by simp
  from b(3) m k(1) show "minAmountOut tx \<le> q" by simp
  show "minAmountOut tx = q" if "s = 0" using that m by simp
next
  fix c acct to' dat
  assume "EvSendTransaction c acct to' dat \<in> set (snd (swap viem wp params))"
  from swap_send_D [OF this] obtain pc' wc addrs qc rc a d' resp' result' q' k where
    r: "reachedSend viem wp params pc' wc c addrs qc rc a d' resp' result' q' k dat"
    and acct: "acct = first addrs"
    and ev': "EvCall (address qc) d' \<in> set (snd (swap viem wp params))"
    by blast
  from r have f: "getPublicClient wp (chain params) = Inr pc'"
       "call pc' (address qc) d' = Inr resp'"
       "decodeFunctionResult viem quoterAbi ''quoteExactInputSingle'' resp' = Inr result'"
       "index result' 0 = JBigInt q'"
       "BigInt (numberMul (toNumber (slippage params)) (Finite 10000)) = Inr k"
       "executeCallData viem (SwapParams.fromToken params) (SwapParams.toToken params)
          (first addrs) a (q' - (q' * k) sdiv 100000) = Inr dat"
    unfolding reachedSend_def by simp_all
  from swap_call_unique [OF ev ev'] pc f resp dec q have qq: "q' = q" by simp
  from slippageBP_in_range [OF s f(5)] have
    k: "k = round (s * 10000)" "numberMul (Finite s) (Finite 10000) = Finite (of_int k)"
       "0 \<le> k" "k \<le> 10000"
    by simp_all
  note b = minOut_bounds [OF q(2) k(3,4)]
  from k(1,2) show "numberMul (Finite s) (Finite 10000) = Finite (of_int (round (s * 10000)))"
    by simp
  from b(2) k(1) show "0 \<le> q - (q * round (s * 10000)) div 100000" by simp
  from b(3) k(1) show "q - (q * round (s * 10000)) div 100000 \<le> q" by simp
  from b(1) f(6) qq k(1) acct
  have "executeCallData viem (SwapParams.fromToken params) (SwapParams.toToken params)
          acct a (q - (q * round (s * 10000)) div 100000) = Inr dat"
    by simp
  then show "\<exists>a. executeCallData viem (SwapParams.fromToken params)
      (SwapParams.toToken params) acct a (q - (q * round (s * 10000)) div 100000) = Inr dat"
    by blast
qed

text \<open>
  And the swap does return then: with a slippage in \<open>[0, 1]\<close> whose product is an integer,
  a quote \<open>q \<ge> 0\<close> and every call of the provider, the client library and the node
  succeeding, it returns that minimum output. The slippage \<open>0\<close> is such a value.
\<close>

lemma swap_in_range_returns:
  assumes "slippage params = Some (Finite s)" and "0 \<le> s" and "s \<le> 1"
    and "BigInt (numberMul (Finite s) (Finite 10000)) = Inr k"
    and "switchChain wp (chain params) = Inr ()"
    and "getPublicClient wp (chain params) = Inr pc"
    and "getWalletClient wp (chain params) = Inr wc"
    and "getChainConfigs wp (chain params) = Inr c"
    and "getAddresses wc 0 = Inr addrs" and "getAddresses wc 1 = Inr addrs'"
    and "contracts c = Some cs"
    and "uniswapV3Quoter cs = Some qc" and "universalRouter cs = Some rc"
    and "parseEther viem (amount params) = Inr a"
    and "encodeFunctionData viem quoterAbi ''quoteExactInputSingle''
           (quoteArgs (SwapParams.fromToken params) (SwapParams.toToken params) a (Finite 3000))
         = Inr d"
    and "call pc (address qc) d = Inr resp"
    and "decodeFunctionResult viem quoterAbi ''quoteExactInputSingle'' resp = Inr result"
    and "index result 0 = JBigInt q" and "0 \<le> q"
    and "executeCallData viem (SwapParams.fromToken params) (SwapParams.toToken params)
           (first addrs') a (q - (q * k) div 100000) = Inr dat"
    and "sendTransaction wc c (first addrs') (address rc) dat = Inr h"
    and "waitForTransactionReceipt pc h = Inr receipt" and "\<not> receiptFailed receipt"
  shows "k = round (s * 10000) \<and>
         swap viem wp params =
           (Inr \<lparr>hash = h, fromToken = SwapParams.fromToken params,
                  toToken = SwapParams.toToken params, amountIn = a,
                  minAmountOut = q - (q * round (s * 10000)) div 100000,
                  recipient = first addrs\<rparr>,
            [EvGetAddresses, EvCall (address qc) d, EvGetAddresses,
             EvSendTransaction c (first addrs') (address rc) dat,
             EvWaitForTransactionReceipt h])"
proof -
  have bp: "BigInt (numberMul (toNumber (slippage params)) (Finite 10000)) = Inr k"
    using assms(1,4) by (simp add: toNumber_def)
  from slippageBP_in_range [OF assms(1-3) bp]
  have k: "k = round (s * 10000)" "0 \<le> k" "k \<le> 10000" by simp_all
  from minOut_bounds(1) [OF assms(19) k(2,3)]
  have sd: "(q * k) sdiv 100000 = (q * k) div 100000" .
  from assms(20) obtain path inputs where enc:
    "encodePacked viem [''address'', ''uint24'', ''address'']
       [JString (SwapParams.fromToken params), JNumber (Finite 3000),
        JString (SwapParams.toToken params)] = Inr path"
    "encodeAbiParameters viem swapInputParams
       [first addrs', JBigInt a, JBigInt (q - (q * k) div 100000), JString path, JBool True]
       = Inr inputs"
    "encodeFunctionData viem executeAbi ''execute''
       [JString ''0x00'', JArray [JString inputs]] = Inr dat"
    by (auto simp: executeCallData_def split: sum.splits)
  have "swap viem wp params =
           (Inr \<lparr>hash = h, fromToken = SwapParams.fromToken params,
                  toToken = SwapParams.toToken params, amountIn = a,
                  minAmountOut = q - (q * k) div 100000,
                  recipient = first addrs\<rparr>,
            [EvGetAddresses, EvCall (address qc) d, EvGetAddresses,
             EvSendTransaction c (first addrs') (address rc) dat,
             EvWaitForTransactionReceipt h])"
    using assms(5-18,21-23) bp enc sd
    by (simp add: swap_defs)
  with k(1) show ?thesis by simp
qed

text \<open>
  C2, as the code has it. \<^verbatim>\<open>swap\<close> does not check the range of the slippage and raises no
  error for \<open>s < 0\<close> or \<open>1 < s\<close>. If \<open>s * 10000\<close> is an integer \<open>k\<close> and every call of the
  provider, the client library and the node succeeds, the swap fetches the quote, submits
  the transaction and returns, with the minimum output \<open>q - (q * k) / 100000\<close> of BigInt
  arithmetic (the division truncates towards zero). The recipient it reports is the first
  address of its first address lookup; the transaction goes out for the first address of
  the second.
\<close>

theorem swap_slippage_not_validated:
  assumes "slippage params = Some (Finite s)" and "s < 0 \<or> 1 < s"
    and "BigInt (numberMul (Finite s) (Finite 10000)) = Inr k"
    and "switchChain wp (chain params) = Inr ()"
    and "getPublicClient wp (chain params) = Inr pc"
    and "getWalletClient wp (chain params) = Inr wc"
    and "getChainConfigs wp (chain params) = Inr c"
    and "getAddresses wc 0 = Inr addrs" and "getAddresses wc 1 = Inr addrs'"
    and "contracts c = Some cs"
    and "uniswapV3Quoter cs = Some qc" and "universalRouter cs = Some rc"
    and "parseEther viem (amount params) = Inr a"
    and "encodeFunctionData viem quoterAbi ''quoteExactInputSingle''
           (quoteArgs (SwapParams.fromToken params) (SwapParams.toToken params) a (Finite 3000))
         = Inr d"
    and "call pc (address qc) d = Inr resp"
    and "decodeFunctionResult viem quoterAbi ''quoteExactInputSingle'' resp = Inr result"
    and "index result 0 = JBigInt q"
    and "executeCallData viem (SwapParams.fromToken params) (SwapParams.toToken params)
           (first addrs') a (q - (q * k) sdiv 100000) = Inr dat"
    and "sendTransaction wc c (first addrs') (address rc) dat = Inr h"
    and "waitForTransactionReceipt pc h = Inr receipt" and "\<not> receiptFailed receipt"
  shows "swap viem wp params =
           (Inr \<lparr>hash = h, fromToken = SwapParams.fromToken params,
                  toToken = SwapParams.toToken params, amountIn = a,
                  minAmountOut = q - (q * k) sdiv 100000, recipient = first addrs\<rparr>,
            [EvGetAddresses, EvCall (address qc) d, EvGetAddresses,
             EvSendTransaction c (first addrs') (address rc) dat,
             EvWaitForTransactionReceipt h])"
proof -
  from assms(18) obtain path inputs where enc:
    "encodePacked viem [''address'', ''uint24'', ''address'']
       [JString (SwapParams.fromToken params), JNumber (Finite 3000),
        JString (SwapParams.toToken params)] = Inr path"
    "encodeAbiParameters viem swapInputParams
       [first addrs', JBigInt a, JBigInt (q - (q * k) sdiv 100000), JString path, JBool True]
       = Inr inputs"
    "encodeFunctionData viem executeAbi ''execute''
       [JString ''0x00'', JArray [JString inputs]] = Inr dat"
    by (auto simp: executeCallData_def split: sum.splits)
  show ?thesis
    using assms(1,3-17,19-21) enc
    by (simp add: swap_defs toNumber_def)
qed

theorem swap_slippage_not_validated_witness:
  "slippage (stubParams (Some (Finite 2))) = Some (Finite 2) \<and> (1::rat) < 2 \<and>
   BigInt (numberMul (Finite 2) (Finite 10000)) = Inr 20000 \<and>
   swap stubViem okProvider (stubParams (Some (Finite 2))) =
     (Inr \<lparr>hash = ''0xH'', fromToken = ''0xT1'', toToken = ''0xT2'',
            amountIn = 1000000000000000000,
            minAmountOut = 1000000 - (1000000 * 20000) sdiv 100000,
            recipient = JString ''0xA''\<rparr>, okTrace)"
proof -
  let ?p = "stubParams (Some (Finite 2))"
  let ?pc = "stubPublicClient (JString ''success'')"
  let ?c = "stubChain (Some stubContracts)"
  let ?result = "[JBigInt 1000000, JBigInt 0, JNumber (Finite 1), JBigInt 100000]"
  have h1: "slippage ?p = Some (Finite 2)" by (simp add: stubParams_def)
  have h2: "(2::rat) < 0 \<or> (1::rat) < 2" by simp
  have h3: "BigInt (numberMul (Finite 2) (Finite 10000)) = Inr 20000"
    using slippageBP_2 by (simp add: toNumber_def)
  have h4: "switchChain okProvider (chain ?p) = Inr ()"
    and h5: "getPublicClient okProvider (chain ?p) = Inr ?pc"
    and h6: "getWalletClient okProvider (chain ?p) = Inr stubWalletClient"
    and h7: "getChainConfigs okProvider (chain ?p) = Inr ?c"
    by (simp_all add: stubProvider_def)
  have h8: "getAddresses stubWalletClient 0 = Inr [''0xA'']"
    and h8': "getAddresses stubWalletClient 1 = Inr [''0xA'']"
    by (simp_all add: stubWalletClient_def)
  have h9: "contracts ?c = Some stubContracts" by (simp add: stubChain_def)
  have h10: "uniswapV3Quoter stubContracts = Some \<lparr>address = ''0xQ''\<rparr>"
    and h11: "universalRouter stubContracts = Some \<lparr>address = ''0xR''\<rparr>"
    by (simp_all add: stubContracts_def)
  have h12: "parseEther stubViem (amount ?p) = Inr 1000000000000000000"
    by (simp add: stubViem_def stubParams_def)
  have h13: "encodeFunctionData stubViem quoterAbi ''quoteExactInputSingle''
      (quoteArgs (SwapParams.fromToken ?p) (SwapParams.toToken ?p) 1000000000000000000
         (Finite 3000)) = Inr ''0xc6a5026a''"
    by (simp add: stubViem_def)
  have h14: "call ?pc (address \<lparr>address = ''0xQ''\<rparr>) ''0xc6a5026a'' = Inr (Some ''0x03'')"
    by (simp add: stubPublicClient_def)
  have h15: "decodeFunctionResult stubViem quoterAbi ''quoteExactInputSingle'' (Some ''0x03'')
      = Inr ?result"
    by (simp add: stubViem_def)
  have h16: "index ?result 0 = JBigInt 1000000" by (simp add: index_def)
  have h17: "executeCallData stubViem (SwapParams.fromToken ?p) (SwapParams.toToken ?p)
      (first [''0xA'']) 1000000000000000000 (1000000 - (1000000 * 20000) sdiv 100000)
      = Inr ''0x24856bc3''"
    by (simp add: executeCallData_def stubViem_def)
  have h18: "sendTransaction stubWalletClient ?c (first [''0xA''])
      (address \<lparr>address = ''0xR''\<rparr>) ''0x24856bc3'' = Inr ''0xH''"
    by (simp add: stubWalletClient_def)
  have h19: "waitForTransactionReceipt ?pc ''0xH'' = Inr (Some \<lparr>status = JString ''success''\<rparr>)"
    by (simp add: stubPublicClient_def)
  have h20: "\<not> receiptFailed (Some \<lparr>status = JString ''success''\<rparr>)"
    by (simp add: receiptFailed_def)
  from swap_slippage_not_validated [OF h1 h2 h3 h4 h5 h6 h7 h8 h8' h9 h10 h11 h12 h13 h14 h15
      h16 h17 h18 h19 h20]
  have "swap stubViem okProvider ?p =
     (Inr \<lparr>hash = ''0xH'', fromToken = ''0xT1'', toToken = ''0xT2'',
            amountIn = 1000000000000000000,
            minAmountOut = 1000000 - (1000000 * 20000) sdiv 100000,
            recipient = JString ''0xA''\<rparr>, okTrace)"
    by (simp add: stubParams_def first_def)
  with h1 h3 show ?thesis by simp
qed

text \<open>
  The claim as stated fails at the slippage \<open>2\<close> (200 per cent): no error is raised, the
  quoter is called, the transaction is submitted, and the swap returns with a minimum
  output of \<open>800000\<close> for a quote of \<open>1000000\<close>.
\<close>

theorem swap_slippage_range_counterexample:
  "(1::rat) < 2 \<and>
   swap stubViem okProvider (stubParams (Some (Finite 2))) =
     (Inr \<lparr>hash = ''0xH'', fromToken = ''0xT1'', toToken = ''0xT2'',
            amountIn = 1000000000000000000, minAmountOut = 800000,
            recipient = JString ''0xA''\<rparr>, okTrace)"
  using swap_stub_2 by simp

end
